theory Spec2Isabelle
  imports Main "HOL-Library.Sublist" "HOL-Library.Char_ord" "HOL-Library.List_Lexorder"
    "HOL-Library.Option_ord"
begin

section \<open>Python values used by the drug-mention graph\<close>

text \<open>
  A Python \<open>str\<close> is modelled as a \<^typ>\<open>string\<close>, a list of 8-bit code points
  (the Latin-1 range, which holds the accented letters of the edge label).
  \<open>str.lower()\<close> maps \<open>A\<close>..\<open>Z\<close> and the Latin-1 capitals (0xC0..0xDE without the
  multiplication sign 0xD7) 32 code points up and leaves every other code point alone;
  \<open>str.isspace()\<close> holds in this range for 0x09..0x0D, 0x1C..0x20, 0x85 and 0xA0.
\<close>

definition py_lower_char :: "char \<Rightarrow> char" where
  "py_lower_char c =
     (let n = (of_char c :: nat) in
      if (65 \<le> n \<and> n \<le> 90) \<or> (192 \<le> n \<and> n \<le> 222 \<and> n \<noteq> 215)
      then char_of (n + 32) else c)"

definition py_lower :: "string \<Rightarrow> string" where
  "py_lower s = map py_lower_char s"

definition py_isspace :: "char \<Rightarrow> bool" where
  "py_isspace c =
     (let n = (of_char c :: nat) in
      (9 \<le> n \<and> n \<le> 13) \<or> (28 \<le> n \<and> n \<le> 32) \<or> n = 133 \<or> n = 160)"

text \<open>\<open>s and s.strip()\<close>: the string holds a character that is not white space.\<close>

definition py_nonblank :: "string \<Rightarrow> bool" where
  "py_nonblank s = (\<exists>c \<in> set s. \<not> py_isspace c)"

text \<open>\<open>s in t\<close> on strings: \<open>s\<close> occurs in \<open>t\<close> as a contiguous run.\<close>

fun py_in :: "string \<Rightarrow> string \<Rightarrow> bool" where
  "py_in s [] = (s = [])"
| "py_in s (c # cs) = (prefix s (c # cs) \<or> py_in s cs)"

text \<open>
  A Python value stored in a dictionary of this program is a string or \<open>None\<close>; a
  dictionary with string keys is an association list in insertion order. Assigning to
  a present key keeps its position, as in Python.
\<close>

type_synonym pyval = "string option"
type_synonym pydict = "(string \<times> pyval) list"

fun dict_set :: "'k \<Rightarrow> 'v \<Rightarrow> ('k \<times> 'v) list \<Rightarrow> ('k \<times> 'v) list" where
  "dict_set k v [] = [(k, v)]"
| "dict_set k v ((k', v') # rest) =
     (if k' = k then (k', v) # rest else (k', v') # dict_set k v rest)"

definition dict_update :: "('k \<times> 'v) list \<Rightarrow> ('k \<times> 'v) list \<Rightarrow> ('k \<times> 'v) list" where
  "dict_update d new = fold (\<lambda>(k, v). dict_set k v) new d"

text \<open>\<open>d.get(k)\<close> and \<open>d.get(k, default)\<close>.\<close>

definition dget :: "pydict \<Rightarrow> string \<Rightarrow> pyval" where
  "dget d k = (case map_of d k of None \<Rightarrow> None | Some v \<Rightarrow> v)"

definition dget_default :: "pydict \<Rightarrow> string \<Rightarrow> pyval \<Rightarrow> pyval" where
  "dget_default d k dflt = (case map_of d k of None \<Rightarrow> dflt | Some v \<Rightarrow> v)"

section \<open>Entity model (src/models/schemas.py)\<close>

datatype PublicationType = PUBMED | CLINICAL_TRIAL

fun PublicationType_value :: "PublicationType \<Rightarrow> string" where
  "PublicationType_value PUBMED = ''pubmed''"
| "PublicationType_value CLINICAL_TRIAL = ''clinical_trial''"

record Drug =
  drug_atccode :: string
  drug_name :: string

record Publication =
  pub_id :: string
  pub_title :: string
  pub_date :: string
  pub_journal_name :: string
  pub_source_type :: PublicationType

record Journal =
  journal_name :: string

text \<open>\<open>Publication.__hash__\<close> hashes the pair \<open>(id, source_type)\<close>.\<close>

definition Publication_hash :: "Publication \<Rightarrow> string \<times> PublicationType" where
  "Publication_hash p = (pub_id p, pub_source_type p)"

text \<open>\<open>Publication.__eq__\<close> on two publications.\<close>

definition Publication_eq :: "Publication \<Rightarrow> Publication \<Rightarrow> bool" where
  "Publication_eq self other =
     (pub_id self = pub_id other
      \<and> pub_source_type self = pub_source_type other
      \<and> pub_date self = pub_date other
      \<and> pub_title self = pub_title other
      \<and> pub_journal_name self = pub_journal_name other)"

section \<open>The directed graph (networkx.DiGraph as the program uses it)\<close>

text \<open>
  Nodes and edges are dictionaries in insertion order: a node key maps to its attribute
  dictionary, an ordered pair of node keys to the attribute dictionary of the edge.
  \<open>add_node\<close> on a present key merges the new attributes into the old ones;
  \<open>add_edge\<close> first creates each missing endpoint with no attributes, then merges
  the edge attributes in the same way.
\<close>

record graph =
  g_nodes :: "(string \<times> pydict) list"
  g_edges :: "((string \<times> string) \<times> pydict) list"

definition empty_graph :: graph where
  "empty_graph = \<lparr>g_nodes = [], g_edges = []\<rparr>"

fun upsert :: "'k \<Rightarrow> pydict \<Rightarrow> ('k \<times> pydict) list \<Rightarrow> ('k \<times> pydict) list" where
  "upsert k a [] = [(k, dict_update [] a)]"
| "upsert k a ((k', b) # rest) =
     (if k' = k then (k', dict_update b a) # rest else (k', b) # upsert k a rest)"

definition add_node :: "string \<Rightarrow> pydict \<Rightarrow> graph \<Rightarrow> graph" where
  "add_node k a g = g\<lparr>g_nodes := upsert k a (g_nodes g)\<rparr>"

definition add_edge :: "string \<Rightarrow> string \<Rightarrow> pydict \<Rightarrow> graph \<Rightarrow> graph" where
  "add_edge u v a g =
     (let g1 = add_node v [] (add_node u [] g)
      in g1\<lparr>g_edges := upsert (u, v) a (g_edges g1)\<rparr>)"

definition node_keys :: "graph \<Rightarrow> string list" where
  "node_keys g = map fst (g_nodes g)"

definition has_node :: "graph \<Rightarrow> string \<Rightarrow> bool" where
  "has_node g k = (k \<in> set (node_keys g))"

definition has_edge :: "graph \<Rightarrow> string \<Rightarrow> string \<Rightarrow> bool" where
  "has_edge g u v = ((u, v) \<in> set (map fst (g_edges g)))"

text \<open>\<open>graph.nodes[k]\<close> for a present key (the empty dictionary stands for a missing one).\<close>

definition node_attrs :: "graph \<Rightarrow> string \<Rightarrow> pydict" where
  "node_attrs g k = (case map_of (g_nodes g) k of None \<Rightarrow> [] | Some a \<Rightarrow> a)"

definition edge_attrs :: "graph \<Rightarrow> string \<Rightarrow> string \<Rightarrow> pydict" where
  "edge_attrs g u v = (case map_of (g_edges g) (u, v) of None \<Rightarrow> [] | Some a \<Rightarrow> a)"

text \<open>
  \<open>graph.edges(data=True)\<close> walks the nodes in insertion order and, for each node, its
  outgoing edges in insertion order; \<open>graph.out_edges(n)\<close> is the inner walk.
\<close>

definition out_edges :: "graph \<Rightarrow> string \<Rightarrow> ((string \<times> string) \<times> pydict) list" where
  "out_edges g n = filter (\<lambda>e. fst (fst e) = n) (g_edges g)"

definition graph_edges :: "graph \<Rightarrow> ((string \<times> string) \<times> pydict) list" where
  "graph_edges g = concat (map (out_edges g) (node_keys g))"

section \<open>Graph Builder (src/pipeline/transformers.py)\<close>

definition relationship_label :: string where
  "relationship_label = ''R'' @ [CHR 0xE9] @ ''f'' @ [CHR 0xE9] @ ''renc'' @ [CHR 0xE9] @ '' dans''"

definition drug_key :: "Drug \<Rightarrow> string" where
  "drug_key d = py_lower (drug_name d)"

definition pub_key :: "Publication \<Rightarrow> string" where
  "pub_key p = py_lower (take 20 (pub_title p))"

definition journal_key :: "string \<Rightarrow> string" where
  "journal_key n = take 20 n"

text \<open>
  \<open>_extract_journals\<close> collects the non-blank journal names into a Python set and lists
  the set. The order of that list is not fixed by the language, so the builder below is
  given the list, and \<open>extracted_journals\<close> says which lists the function can return.
  \<open>extract_journals\<close> is one of them (first occurrences, in input order).
\<close>

definition extracted_journals :: "Publication list \<Rightarrow> Journal list \<Rightarrow> bool" where
  "extracted_journals publications journals =
     (distinct (map journal_name journals)
      \<and> set (map journal_name journals)
          = set (filter py_nonblank (map pub_journal_name publications)))"

definition extract_journals :: "Publication list \<Rightarrow> Journal list" where
  "extract_journals publications =
     map (\<lambda>n. \<lparr>journal_name = n\<rparr>)
       (rev (remdups (rev (filter py_nonblank (map pub_journal_name publications)))))"

definition drug_node_attrs :: "Drug \<Rightarrow> pydict" where
  "drug_node_attrs d = [(''type'', Some ''drug''), (''atccode'', Some (drug_atccode d))]"

definition pub_node_attrs :: "Publication \<Rightarrow> pydict" where
  "pub_node_attrs p =
     [(''type'', Some (PublicationType_value (pub_source_type p))),
      (''id'', Some (pub_id p)),
      (''title'', Some (pub_title p)),
      (''date'', Some (pub_date p)),
      (''journal_name'', Some (pub_journal_name p))]"

definition journal_node_attrs :: "Journal \<Rightarrow> pydict" where
  "journal_node_attrs j = [(''type'', Some ''journal''), (''name'', Some (journal_name j))]"

definition add_nodes_to_graph :: "Drug list \<Rightarrow> Publication list \<Rightarrow> Journal list \<Rightarrow> graph \<Rightarrow> graph" where
  "add_nodes_to_graph drugs publications journals g =
     fold (\<lambda>j. add_node (journal_key (journal_name j)) (journal_node_attrs j)) journals
       (fold (\<lambda>p. add_node (pub_key p) (pub_node_attrs p)) publications
          (fold (\<lambda>d. add_node (drug_key d) (drug_node_attrs d)) drugs g))"

definition mentions :: "Drug \<Rightarrow> Publication \<Rightarrow> bool" where
  "mentions d p = py_in (py_lower (drug_name d)) (py_lower (pub_title p))"

definition mention_attrs :: "Publication \<Rightarrow> pydict" where
  "mention_attrs p = [(''relationship'', Some relationship_label), (''date_mention'', Some (pub_date p))]"

text \<open>
  The body of the inner loop of \<open>_connect_drugs_to_publications\<close>; the state is the
  graph and the set \<open>drug_journal_connections\<close>.
\<close>

definition connect_pub :: "Drug \<Rightarrow> Publication \<Rightarrow> graph \<times> (string \<times> string) set \<Rightarrow> graph \<times> (string \<times> string) set" where
  "connect_pub d p st =
     (case st of (g, conns) \<Rightarrow>
        if mentions d p then
          (let g1 = add_edge (drug_key d) (pub_key p) (mention_attrs p) g;
               journal_id = journal_key (pub_journal_name p);
               connection_key = (drug_key d, journal_id)
           in if connection_key \<notin> conns
              then (add_edge (drug_key d) journal_id (mention_attrs p) g1, insert connection_key conns)
              else (g1, conns))
        else (g, conns))"

definition connect_drug :: "Publication list \<Rightarrow> Drug \<Rightarrow> graph \<times> (string \<times> string) set \<Rightarrow> graph \<times> (string \<times> string) set" where
  "connect_drug publications d st = fold (connect_pub d) publications st"

definition connect_drugs_to_publications :: "Drug list \<Rightarrow> Publication list \<Rightarrow> graph \<Rightarrow> graph" where
  "connect_drugs_to_publications drugs publications g =
     fst (fold (connect_drug publications) drugs (g, {}))"

text \<open>\<open>build_graph\<close> for a given listing of the journal set, and for the listing above.\<close>

definition build_graph_with :: "Journal list \<Rightarrow> Drug list \<Rightarrow> Publication list \<Rightarrow> Publication list \<Rightarrow> graph" where
  "build_graph_with journals drugs pubmed_publications clinical_trials_publications =
     (let all_publications = pubmed_publications @ clinical_trials_publications
      in connect_drugs_to_publications drugs all_publications
           (add_nodes_to_graph drugs all_publications journals empty_graph))"

definition build_graph :: "Drug list \<Rightarrow> Publication list \<Rightarrow> Publication list \<Rightarrow> graph" where
  "build_graph drugs pubmed_publications clinical_trials_publications =
     build_graph_with (extract_journals (pubmed_publications @ clinical_trials_publications))
       drugs pubmed_publications clinical_trials_publications"

section \<open>Graph Codec (src/utils/helpers.py)\<close>

text \<open>
  The document is the parsed JSON file. A top-level collection is \<open>None\<close> when its key
  is absent from the file; an entity record is a dictionary whose values are strings or
  \<open>null\<close>. In a relationship record the \<open>source\<close> and \<open>target\<close> objects are dictionaries
  (empty when the key is absent, which is what \<open>rel.get("source", {})\<close> makes of it).

  This type holds the documents whose collections, where present, have the shape the
  export writes: \<open>drugs\<close>, \<open>journals\<close>, \<open>relationships\<close> and the two lists under
  \<open>publications\<close> are lists of dictionaries, \<open>publications\<close>, \<open>source\<close> and \<open>target\<close>
  are dictionaries, and every value of a record is a string or \<open>null\<close>. A file in which
  one of these keys is present with \<open>null\<close> or with a value of another JSON type (a
  number for a name, a list for \<open>publications\<close>) is not a value of this type: on such a
  file \<open>load_graph_from_json\<close> raises \<open>TypeError\<close> or \<open>AttributeError\<close> from the loop
  header or the attribute access, and nothing below speaks about it.
\<close>

datatype error = FileNotFoundError | AttributeError | TypeError | ValidationError

record relationship =
  rel_source :: pydict
  rel_target :: pydict
  rel_type :: pyval
  rel_date_mention :: pyval

record publications_doc =
  doc_pubmed :: "pydict list option"
  doc_clinical_trials :: "pydict list option"

record document =
  doc_drugs :: "pydict list option"
  doc_publications :: "publications_doc option"
  doc_journals :: "pydict list option"
  doc_relationships :: "relationship list option"

subsection \<open>Export\<close>

text \<open>
  The node loop of \<open>save_graph_to_json\<close>. Building a \<open>Drug\<close>, \<open>Publication\<close> or
  \<open>Journal\<close> from an attribute that is \<open>None\<close> fails pydantic's validation, and the
  function lets that error escape. The four lists come out in node order.
\<close>

fun save_nodes :: "(string \<times> pydict) list \<Rightarrow> error + (pydict list \<times> pydict list \<times> pydict list \<times> pydict list)" where
  "save_nodes [] = Inr ([], [], [], [])"
| "save_nodes ((node, attrs) # rest) =
     (let node_type = dget attrs ''type'' in
      if node_type = Some ''drug'' then
        (case dget_default attrs ''atccode'' (Some []) of
           None \<Rightarrow> Inl ValidationError
         | Some atccode \<Rightarrow>
             (case save_nodes rest of
                Inl e \<Rightarrow> Inl e
              | Inr (drugs, pubmeds, clinical_trials, journals) \<Rightarrow>
                  Inr ([(''atccode'', Some atccode), (''name'', Some node)] # drugs,
                       pubmeds, clinical_trials, journals)))
      else if node_type = Some ''pubmed'' \<or> node_type = Some ''clinical_trial'' then
        (case (dget attrs ''id'', dget attrs ''title'', dget attrs ''date'', dget attrs ''journal_name'') of
           (Some i, Some t, Some d, Some j) \<Rightarrow>
             (case save_nodes rest of
                Inl e \<Rightarrow> Inl e
              | Inr (drugs, pubmeds, clinical_trials, journals) \<Rightarrow>
                  (let publication =
                         [(''id'', Some i), (''title'', Some t), (''date'', Some d),
                          (''journal_name'', Some j), (''source_type'', node_type)]
                   in if node_type = Some ''pubmed''
                      then Inr (drugs, publication # pubmeds, clinical_trials, journals)
                      else Inr (drugs, pubmeds, publication # clinical_trials, journals)))
         | _ \<Rightarrow> Inl ValidationError)
      else if node_type = Some ''journal'' then
        (case dget attrs ''name'' of
           None \<Rightarrow> Inl ValidationError
         | Some n \<Rightarrow>
             (case save_nodes rest of
                Inl e \<Rightarrow> Inl e
              | Inr (drugs, pubmeds, clinical_trials, journals) \<Rightarrow>
                  Inr (drugs, pubmeds, clinical_trials, [(''name'', Some n)] # journals)))
      else save_nodes rest)"

text \<open>The body of the edge loop.\<close>

definition save_relationship :: "graph \<Rightarrow> (string \<times> string) \<times> pydict \<Rightarrow> relationship" where
  "save_relationship g e =
     (case e of ((source, target), attrs) \<Rightarrow>
        (let source_type = dget (node_attrs g source) ''type'';
             target_type = dget (node_attrs g target) ''type'';
             source_id = (if source_type = Some ''drug''
                          then dget (node_attrs g source) ''atccode'' else Some source);
             target_id = (if target_type = Some ''pubmed'' \<or> target_type = Some ''clinical_trial''
                          then dget (node_attrs g target) ''id''
                          else if target_type = Some ''journal''
                          then dget (node_attrs g target) ''name''
                          else Some target)
         in \<lparr>rel_source = [(''id'', source_id), (''type'', source_type)],
             rel_target = [(''id'', target_id), (''type'', target_type)],
             rel_type = dget attrs ''relationship'',
             rel_date_mention = dget attrs ''date_mention''\<rparr>))"

definition save_graph_to_json :: "graph \<Rightarrow> error + document" where
  "save_graph_to_json g =
     (case save_nodes (g_nodes g) of
        Inl e \<Rightarrow> Inl e
      | Inr (drugs, pubmeds, clinical_trials, journals) \<Rightarrow>
          Inr \<lparr>doc_drugs = Some drugs,
               doc_publications =
                 Some \<lparr>doc_pubmed = Some pubmeds, doc_clinical_trials = Some clinical_trials\<rparr>,
               doc_journals = Some journals,
               doc_relationships = Some (map (save_relationship g) (graph_edges g))\<rparr>)"

subsection \<open>Import\<close>

text \<open>
  The four node loops of \<open>load_graph_from_json\<close>. \<open>drug.get("name").lower()\<close> raises
  when the name is \<open>None\<close>, and so does slicing a title or a journal name that is
  \<open>None\<close>; the function logs the error and raises it again.
\<close>

fun load_drugs :: "pydict list \<Rightarrow> graph \<Rightarrow> error + graph" where
  "load_drugs [] g = Inr g"
| "load_drugs (drug # rest) g =
     (case dget drug ''name'' of
        None \<Rightarrow> Inl AttributeError
      | Some n \<Rightarrow>
          load_drugs rest
            (add_node (py_lower n) [(''type'', Some ''drug''), (''atccode'', dget drug ''atccode'')] g))"

fun load_publications :: "string \<Rightarrow> pydict list \<Rightarrow> graph \<Rightarrow> error + graph" where
  "load_publications ty [] g = Inr g"
| "load_publications ty (pub # rest) g =
     (case dget_default pub ''title'' (Some []) of
        None \<Rightarrow> Inl TypeError
      | Some title \<Rightarrow>
          load_publications ty rest
            (add_node (py_lower (take 20 title))
               [(''type'', Some ty), (''id'', dget pub ''id''), (''title'', Some title),
                (''date'', dget pub ''date''), (''journal_name'', dget pub ''journal_name'')] g))"

fun load_journals :: "pydict list \<Rightarrow> graph \<Rightarrow> error + graph" where
  "load_journals [] g = Inr g"
| "load_journals (journal # rest) g =
     (case dget journal ''name'' of
        None \<Rightarrow> Inl TypeError
      | Some n \<Rightarrow>
          load_journals rest
            (add_node (take 20 n) [(''type'', Some ''journal''), (''name'', Some n)] g))"

text \<open>The two linear searches over \<open>graph.nodes(data=True)\<close>, stopping at the first hit.\<close>

definition find_drug_node :: "graph \<Rightarrow> pyval \<Rightarrow> string option" where
  "find_drug_node g source_id =
     map_option fst
       (find (\<lambda>(node, attrs). dget attrs ''type'' = Some ''drug'' \<and> dget attrs ''atccode'' = source_id)
          (g_nodes g))"

definition find_publication_node :: "graph \<Rightarrow> pyval \<Rightarrow> pyval \<Rightarrow> string option" where
  "find_publication_node g target_type target_id =
     map_option fst
       (find (\<lambda>(node, attrs). dget attrs ''type'' = target_type \<and> dget attrs ''id'' = target_id)
          (g_nodes g))"

text \<open>Python's truth value of a string or \<open>None\<close>.\<close>

fun truthy :: "pyval \<Rightarrow> bool" where
  "truthy None = False"
| "truthy (Some s) = (s \<noteq> [])"

definition resolve_source :: "graph \<Rightarrow> relationship \<Rightarrow> pyval" where
  "resolve_source g rel =
     (let source_id = dget (rel_source rel) ''id'';
          source_type = dget (rel_source rel) ''type''
      in if source_type = Some ''drug'' then find_drug_node g source_id
         else if truthy source_id then map_option (\<lambda>s. py_lower (take 20 s)) source_id
         else None)"

definition resolve_target :: "graph \<Rightarrow> relationship \<Rightarrow> pyval" where
  "resolve_target g rel =
     (let target_id = dget (rel_target rel) ''id'';
          target_type = dget (rel_target rel) ''type''
      in if target_type = Some ''pubmed'' \<or> target_type = Some ''clinical_trial''
         then find_publication_node g target_type target_id
         else if target_type = Some ''journal''
         then (if truthy target_id then map_option (take 20) target_id else None)
         else target_id)"

definition load_relationship :: "relationship \<Rightarrow> graph \<Rightarrow> graph" where
  "load_relationship rel g =
     (case (resolve_source g rel, resolve_target g rel) of
        (Some source_node, Some target_node) \<Rightarrow>
          if source_node \<noteq> [] \<and> target_node \<noteq> []
             \<and> has_node g source_node \<and> has_node g target_node
          then add_edge source_node target_node
                 [(''relationship'', rel_type rel), (''date_mention'', rel_date_mention rel)] g
          else g
      | _ \<Rightarrow> g)"

definition get_list :: "'a list option \<Rightarrow> 'a list" where
  "get_list c = (case c of None \<Rightarrow> [] | Some xs \<Rightarrow> xs)"

definition get_publications :: "document \<Rightarrow> publications_doc" where
  "get_publications d =
     (case doc_publications d of
        None \<Rightarrow> \<lparr>doc_pubmed = None, doc_clinical_trials = None\<rparr>
      | Some p \<Rightarrow> p)"

definition load_graph_from_json :: "document \<Rightarrow> error + graph" where
  "load_graph_from_json graph_data =
     (case load_drugs (get_list (doc_drugs graph_data)) empty_graph of
        Inl e \<Rightarrow> Inl e
      | Inr g1 \<Rightarrow>
     (case load_publications ''pubmed'' (get_list (doc_pubmed (get_publications graph_data))) g1 of
        Inl e \<Rightarrow> Inl e
      | Inr g2 \<Rightarrow>
     (case load_publications ''clinical_trial''
             (get_list (doc_clinical_trials (get_publications graph_data))) g2 of
        Inl e \<Rightarrow> Inl e
      | Inr g3 \<Rightarrow>
     (case load_journals (get_list (doc_journals graph_data)) g3 of
        Inl e \<Rightarrow> Inl e
      | Inr g4 \<Rightarrow>
          Inr (fold load_relationship (get_list (doc_relationships graph_data)) g4)))))"

section \<open>Analytics (src/utils/helpers.py)\<close>

text \<open>
  \<open>find_journals_with_most_mentions_of_drug\<close> reads the document, imports it and counts.
  Any exception, the import's included, is caught and turned into the error result.
  \<open>journal_mentions\<close> is a dictionary from the journal node's \<open>name\<close> attribute to a
  count; sorting a list that mixes \<open>None\<close> with strings raises in Python.
\<close>

definition drug_nodes_named :: "graph \<Rightarrow> string \<Rightarrow> string list" where
  "drug_nodes_named g drug_name' =
     map fst (filter (\<lambda>(node, attrs). dget attrs ''type'' = Some ''drug'' \<and> node = drug_name') (g_nodes g))"

definition dict_item :: "(pyval \<times> int) list \<Rightarrow> pyval \<Rightarrow> int" where
  "dict_item d k = (case map_of d k of None \<Rightarrow> 0 | Some c \<Rightarrow> c)"

definition count_mention :: "graph \<Rightarrow> (string \<times> string) \<times> pydict \<Rightarrow> (pyval \<times> int) list \<Rightarrow> (pyval \<times> int) list" where
  "count_mention g e journal_mentions =
     (let target = snd (fst e);
          target_type = dget (node_attrs g target) ''type''
      in if target_type = Some ''journal'' then
           (let journal_name' = dget (node_attrs g target) ''name'';
                jm1 = (if journal_name' \<notin> set (map fst journal_mentions)
                       then dict_set journal_name' 1 journal_mentions else journal_mentions)
            in dict_set journal_name' (dict_item jm1 journal_name' + 1) jm1)
         else journal_mentions)"

definition count_mentions :: "graph \<Rightarrow> string list \<Rightarrow> (pyval \<times> int) list" where
  "count_mentions g drug_nodes =
     fold (\<lambda>drug_node jm. fold (count_mention g) (out_edges g drug_node) jm) drug_nodes []"

definition no_journals_found :: "pyval list \<times> int" where
  "no_journals_found = ([Some ''No journals found''], 0)"

definition error_processing_journals :: "pyval list \<times> int" where
  "error_processing_journals = ([Some ''Error processing journals''], 0)"

definition top_journals_of :: "(pyval \<times> int) list \<Rightarrow> pyval list \<times> int" where
  "top_journals_of journal_mentions =
     (if journal_mentions = [] then no_journals_found
      else
        (let max_mentions = Max (set (map snd journal_mentions));
             top_journals = map fst (filter (\<lambda>(journal, mentions). mentions = max_mentions) journal_mentions)
         in if 2 \<le> length top_journals \<and> None \<in> set top_journals
            then error_processing_journals
            else (sort top_journals, max_mentions)))"

definition find_journals_with_most_mentions_of_drug :: "document \<Rightarrow> string \<Rightarrow> pyval list \<times> int" where
  "find_journals_with_most_mentions_of_drug graph_data drug_name' =
     (case load_graph_from_json graph_data of
        Inl e \<Rightarrow> error_processing_journals
      | Inr g \<Rightarrow>
          (let drug_nodes = drug_nodes_named g drug_name'
           in if drug_nodes = [] then no_journals_found
              else top_journals_of (count_mentions g drug_nodes)))"

section \<open>Properties looked at, and the scenario of the specification\<close>

text \<open>Every edge of the graph carries the relationship label \<open>l\<close>.\<close>

definition edges_labelled :: "graph \<Rightarrow> string \<Rightarrow> bool" where
  "edges_labelled g l = (\<forall>e \<in> set (g_edges g). dget (snd e) ''relationship'' = Some l)"

definition scenario_drugs :: "Drug list" where
  "scenario_drugs = [\<lparr>drug_atccode = ''A1'', drug_name = ''Epinephrine''\<rparr>]"

definition scenario_pubmed :: "Publication list" where
  "scenario_pubmed =
     [\<lparr>pub_id = ''1'', pub_title = ''Epinephrine use in anaphylaxis'', pub_date = ''2020-01-01'',
       pub_journal_name = ''NEJM'', pub_source_type = PUBMED\<rparr>]"

definition scenario_graph :: graph where
  "scenario_graph = build_graph scenario_drugs scenario_pubmed []"

text \<open>The document that \<open>save_graph_to_json\<close> writes for the scenario graph.\<close>

definition scenario_document :: document where
  "scenario_document =
     \<lparr>doc_drugs = Some [[(''atccode'', Some ''A1''), (''name'', Some ''epinephrine'')]],
      doc_publications = Some
        \<lparr>doc_pubmed = Some [[(''id'', Some ''1''), (''title'', Some ''Epinephrine use in anaphylaxis''),
                            (''date'', Some ''2020-01-01''), (''journal_name'', Some ''NEJM''),
                            (''source_type'', Some ''pubmed'')]],
         doc_clinical_trials = Some []\<rparr>,
      doc_journals = Some [[(''name'', Some ''NEJM'')]],
      doc_relationships = Some
        [\<lparr>rel_source = [(''id'', Some ''A1''), (''type'', Some ''drug'')],
          rel_target = [(''id'', Some ''1''), (''type'', Some ''pubmed'')],
          rel_type = Some relationship_label, rel_date_mention = Some ''2020-01-01''\<rparr>,
         \<lparr>rel_source = [(''id'', Some ''A1''), (''type'', Some ''drug'')],
          rel_target = [(''id'', Some ''NEJM''), (''type'', Some ''journal'')],
          rel_type = Some relationship_label, rel_date_mention = Some ''2020-01-01''\<rparr>]\<rparr>"

text \<open>The document with every absent collection written out as an empty list.\<close>

definition fill_missing :: "document \<Rightarrow> document" where
  "fill_missing d =
     \<lparr>doc_drugs = Some (get_list (doc_drugs d)),
      doc_publications = Some
        \<lparr>doc_pubmed = Some (get_list (doc_pubmed (get_publications d))),
         doc_clinical_trials = Some (get_list (doc_clinical_trials (get_publications d)))\<rparr>,
      doc_journals = Some (get_list (doc_journals d)),
      doc_relationships = Some (get_list (doc_relationships d))\<rparr>"

text \<open>
  The records the node loops of the import can read: every drug and journal record has a
  \<open>name\<close> that is a string, and no publication record has a \<open>title\<close> that is \<open>null\<close>.
\<close>

definition records_ok :: "document \<Rightarrow> bool" where
  "records_ok d =
     ((\<forall>drug \<in> set (get_list (doc_drugs d)). dget drug ''name'' \<noteq> None)
      \<and> (\<forall>pub \<in> set (get_list (doc_pubmed (get_publications d))).
            dget_default pub ''title'' (Some []) \<noteq> None)
      \<and> (\<forall>pub \<in> set (get_list (doc_clinical_trials (get_publications d))).
            dget_default pub ''title'' (Some []) \<noteq> None)
      \<and> (\<forall>journal \<in> set (get_list (doc_journals d)). dget journal ''name'' \<noteq> None))"

text \<open>A document with the \<open>drugs\<close> collection only.\<close>

definition document_without_journals :: document where
  "document_without_journals =
     \<lparr>doc_drugs = Some [[(''atccode'', Some ''A1''), (''name'', Some ''epinephrine'')]],
      doc_publications = None, doc_journals = None, doc_relationships = None\<rparr>"

text \<open>
  What the builder guarantees of a node with key \<open>k\<close> and attributes \<open>a\<close>, given the
  set \<open>J\<close> of journal names: a typed node has the attributes the export reads, a
  publication node is keyed by its lower-cased truncated title and a journal node by its
  truncated name.
\<close>

definition built_node_ok :: "string set \<Rightarrow> string \<times> pydict \<Rightarrow> bool" where
  "built_node_ok J e =
     (case e of (k, a) \<Rightarrow>
        dget a ''type'' = None
        \<or> (dget a ''type'' = Some ''drug'' \<and> dget a ''atccode'' \<noteq> None)
        \<or> ((dget a ''type'' = Some ''pubmed'' \<or> dget a ''type'' = Some ''clinical_trial'')
            \<and> dget a ''id'' \<noteq> None \<and> dget a ''date'' \<noteq> None
            \<and> dget a ''journal_name'' \<noteq> None
            \<and> (\<exists>title. dget a ''title'' = Some title \<and> k = py_lower (take 20 title)))
        \<or> (dget a ''type'' = Some ''journal''
            \<and> (\<exists>n \<in> J. dget a ''name'' = Some n \<and> k = journal_key n)))"

text \<open>The node carries one of the four node types.\<close>

definition node_typed :: "pydict \<Rightarrow> bool" where
  "node_typed a =
     (dget a ''type'' = Some ''drug'' \<or> dget a ''type'' = Some ''pubmed''
      \<or> dget a ''type'' = Some ''clinical_trial'' \<or> dget a ''type'' = Some ''journal'')"

text \<open>Every node and every edge endpoint of the graph carries one of the four types.\<close>

definition all_typed :: "graph \<Rightarrow> bool" where
  "all_typed g =
     (list_all (\<lambda>e. node_typed (snd e)) (g_nodes g)
      \<and> list_all (\<lambda>e. node_typed (node_attrs g (fst (fst e))) \<and> node_typed (node_attrs g (snd (fst e))))
          (g_edges g))"

text \<open>Every publication whose title mentions some drug has a non-blank journal name.\<close>

definition matched_journals_nonblank :: "Drug list \<Rightarrow> Publication list \<Rightarrow> bool" where
  "matched_journals_nonblank drugs publications =
     (\<forall>p \<in> set publications. (\<exists>d \<in> set drugs. mentions d p) \<longrightarrow> py_nonblank (pub_journal_name p))"

text \<open>The node keys of the drugs, publications and journals handed to \<open>_add_nodes_to_graph\<close>.\<close>

definition entity_keys :: "Drug list \<Rightarrow> Publication list \<Rightarrow> Journal list \<Rightarrow> string set" where
  "entity_keys drugs publications journals =
     set (map drug_key drugs) \<union> set (map pub_key publications)
     \<union> set (map (\<lambda>j. journal_key (journal_name j)) journals)"


text \<open>Every edge starts and ends at a node of the graph.\<close>

definition endpoints_present :: "graph \<Rightarrow> bool" where
  "endpoints_present g =
     (\<forall>e \<in> set (map fst (g_edges g)). fst e \<in> set (node_keys g) \<and> snd e \<in> set (node_keys g))"

text \<open>The ordered pairs of node keys that are joined by an edge.\<close>

definition edge_keys :: "graph \<Rightarrow> (string \<times> string) set" where
  "edge_keys g = set (map fst (g_edges g))"

text \<open>
  The pairs the builder joins: a drug's key with the key of each publication whose title
  mentions the drug, and with the key of that publication's journal.
\<close>

definition mention_edges :: "Drug list \<Rightarrow> Publication list \<Rightarrow> (string \<times> string) set" where
  "mention_edges drugs publications =
     {(drug_key d, v) | d p v.
        d \<in> set drugs \<and> p \<in> set publications \<and> mentions d p
        \<and> (v = pub_key p \<or> v = journal_key (pub_journal_name p))}"

text \<open>The entity records the export writes for the nodes of each type, in node order.\<close>

definition drug_records :: "(string \<times> pydict) list \<Rightarrow> pydict list" where
  "drug_records nodes =
     map (\<lambda>e. [(''atccode'', dget (snd e) ''atccode''), (''name'', Some (fst e))])
       (filter (\<lambda>e. dget (snd e) ''type'' = Some ''drug'') nodes)"

definition publication_records :: "string \<Rightarrow> (string \<times> pydict) list \<Rightarrow> pydict list" where
  "publication_records ty nodes =
     map (\<lambda>e. [(''id'', dget (snd e) ''id''), (''title'', dget (snd e) ''title''),
                (''date'', dget (snd e) ''date''), (''journal_name'', dget (snd e) ''journal_name''),
                (''source_type'', Some ty)])
       (filter (\<lambda>e. dget (snd e) ''type'' = Some ty) nodes)"

definition journal_records :: "(string \<times> pydict) list \<Rightarrow> pydict list" where
  "journal_records nodes =
     map (\<lambda>e. [(''name'', dget (snd e) ''name'')])
       (filter (\<lambda>e. dget (snd e) ''type'' = Some ''journal'') nodes)"

text \<open>A drug and a publication of a journal whose name is longer than 20 characters.\<close>

definition long_journal_drugs :: "Drug list" where
  "long_journal_drugs = [\<lparr>drug_atccode = ''R01AD'', drug_name = ''BETAMETHASONE''\<rparr>]"

definition long_journal_pubmed :: "Publication list" where
  "long_journal_pubmed =
     [\<lparr>pub_id = ''10'', pub_title = ''Effects of betamethasone'', pub_date = ''2020-01-01'',
       pub_journal_name = ''The journal of maternal-fetal & neonatal medicine'',
       pub_source_type = PUBMED\<rparr>]"

definition long_journal_graph :: graph where
  "long_journal_graph = build_graph long_journal_drugs long_journal_pubmed []"

text \<open>
  A drug mentioned by a publication with an empty journal name; the same with a second
  publication whose empty title gives it the node key of the empty journal name.
\<close>

definition blank_journal_drugs :: "Drug list" where
  "blank_journal_drugs = [\<lparr>drug_atccode = ''A1'', drug_name = ''x''\<rparr>]"

definition blank_journal_pubmed :: "Publication list" where
  "blank_journal_pubmed =
     [\<lparr>pub_id = ''1'', pub_title = ''on x'', pub_date = ''2020-01-01'', pub_journal_name = [],
       pub_source_type = PUBMED\<rparr>]"

definition blank_key_taken_pubmed :: "Publication list" where
  "blank_key_taken_pubmed =
     [\<lparr>pub_id = ''1'', pub_title = ''on x'', pub_date = ''2020-01-01'', pub_journal_name = [],
       pub_source_type = PUBMED\<rparr>,
      \<lparr>pub_id = ''2'', pub_title = [], pub_date = ''2020-01-02'', pub_journal_name = ''J'',
       pub_source_type = PUBMED\<rparr>]"

definition blank_journal_graph :: graph where
  "blank_journal_graph = build_graph blank_journal_drugs blank_journal_pubmed []"

definition blank_key_taken_graph :: graph where
  "blank_key_taken_graph = build_graph blank_journal_drugs blank_key_taken_pubmed []"

text \<open>The relationship record exported for the drug-to-journal edge of that graph.\<close>

definition long_journal_relationship :: relationship where
  "long_journal_relationship =
     \<lparr>rel_source = [(''id'', Some ''R01AD''), (''type'', Some ''drug'')],
      rel_target = [(''id'', Some ''The journal of maternal-fetal & neonatal medicine''),
                    (''type'', Some ''journal'')],
      rel_type = Some relationship_label, rel_date_mention = Some ''2020-01-01''\<rparr>"

text \<open>The drug \<open>amphetamine\<close> and a publication about dextroamphetamine.\<close>

definition amphetamine_drugs :: "Drug list" where
  "amphetamine_drugs = [\<lparr>drug_atccode = ''N06BA01'', drug_name = ''amphetamine''\<rparr>]"

definition amphetamine_pubmed :: "Publication list" where
  "amphetamine_pubmed =
     [\<lparr>pub_id = ''7'', pub_title = ''Dextroamphetamine is effective'', pub_date = ''2020-03-01'',
       pub_journal_name = ''Sleep'', pub_source_type = PUBMED\<rparr>]"

definition amphetamine_graph :: graph where
  "amphetamine_graph = build_graph amphetamine_drugs amphetamine_pubmed []"

text \<open>
  Two publications whose titles agree on their first 20 characters; only the first one
  mentions the drug.
\<close>

definition shared_key_drugs :: "Drug list" where
  "shared_key_drugs = [\<lparr>drug_atccode = ''A1'', drug_name = ''zinc''\<rparr>]"

definition shared_key_pubmed :: "Publication list" where
  "shared_key_pubmed =
     [\<lparr>pub_id = ''1'', pub_title = ''A randomised trial of zinc'', pub_date = ''2020-01-01'',
       pub_journal_name = ''J'', pub_source_type = PUBMED\<rparr>,
      \<lparr>pub_id = ''2'', pub_title = ''A randomised trial of iron'', pub_date = ''2020-01-02'',
       pub_journal_name = ''J'', pub_source_type = PUBMED\<rparr>]"

definition shared_key_graph :: graph where
  "shared_key_graph = build_graph shared_key_drugs shared_key_pubmed []"



























section \<open>Dictionaries and graph updates\<close>


lemma map_of_dict_set: "map_of (dict_set k v d) = (map_of d)(k \<mapsto> v)"
  by (induction d) (auto simp: fun_eq_iff)

lemma dget_dict_set: "dget (dict_set k v d) k' = (if k' = k then v else dget d k')"
  by (simp add: dget_def map_of_dict_set)

lemma dget_Nil: "dget [] k = None"
  by (simp add: dget_def)

lemma dget_Cons: "dget ((k, v) # d) k' = (if k' = k then v else dget d k')"
  by (simp add: dget_def)

lemma dict_update_Nil: "dict_update d [] = d"
  by (simp add: dict_update_def)

lemma dict_update_Cons: "dict_update d ((k, v) # new) = dict_update (dict_set k v d) new"
  by (simp add: dict_update_def)

lemmas dict_simps = dget_dict_set dget_Nil dget_Cons dict_update_Nil dict_update_Cons

lemma upsert_keys_list:
  "map fst (upsert k a xs) = (if k \<in> set (map fst xs) then map fst xs else map fst xs @ [k])"
  by (induction k a xs rule: upsert.induct) force+

lemma upsert_keys: "set (map fst (upsert k a xs)) = insert k (set (map fst xs))"
  by (auto simp: upsert_keys_list)

lemma upsert_distinct: "distinct (map fst xs) \<Longrightarrow> distinct (map fst (upsert k a xs))"
  by (simp add: upsert_keys_list)

lemma upsert_entry:
  "(k', b') \<in> set (upsert k a xs) \<Longrightarrow>
     (k', b') \<in> set xs
     \<or> (k' = k \<and> (b' = dict_update [] a \<or> (\<exists>b. (k, b) \<in> set xs \<and> b' = dict_update b a)))"
  by (induction k a xs rule: upsert.induct) (auto split: if_splits)

lemma upsert_Nil_present: "k \<in> set (map fst xs) \<Longrightarrow> upsert k [] xs = xs"
  by (induction k "[] :: pydict" xs rule: upsert.induct) (force simp: dict_update_Nil)+


lemma g_edges_add_node [simp]: "g_edges (add_node k a g) = g_edges g"
  by (simp add: add_node_def)

lemma g_nodes_add_node: "g_nodes (add_node k a g) = upsert k a (g_nodes g)"
  by (simp add: add_node_def)

lemma g_edges_add_edge: "g_edges (add_edge u v a g) = upsert (u, v) a (g_edges g)"
  by (simp add: add_edge_def Let_def)

lemma g_nodes_add_edge: "g_nodes (add_edge u v a g) = upsert v [] (upsert u [] (g_nodes g))"
  by (simp add: add_edge_def Let_def add_node_def)

lemma connect_pub_inv:
  assumes "P (fst st)" and "mentions d p \<Longrightarrow>
     (\<And>g v. P g \<Longrightarrow> v = pub_key p \<or> v = journal_key (pub_journal_name p) \<Longrightarrow>
        P (add_edge (drug_key d) v (mention_attrs p) g))"
  shows "P (fst (connect_pub d p st))"
  using assms by (cases st) (auto simp: connect_pub_def Let_def)

lemma connect_drug_inv:
  assumes "P (fst st)" and "set ps \<subseteq> Ps"
    and "\<And>g p v. P g \<Longrightarrow> p \<in> Ps \<Longrightarrow> mentions d p \<Longrightarrow>
           v = pub_key p \<or> v = journal_key (pub_journal_name p) \<Longrightarrow>
           P (add_edge (drug_key d) v (mention_attrs p) g)"
  shows "P (fst (connect_drug ps d st))"
  unfolding connect_drug_def using assms(1,2)
proof (induction ps arbitrary: st)
  case Nil
  then show ?case by simp
next
  case (Cons p ps)
  have "P (fst (connect_pub d p st))"
    by (rule connect_pub_inv[where P=P, OF Cons.prems(1)]) (use Cons.prems(2) assms(3) in auto)
  then show ?case using Cons by simp
qed

lemma connect_inv:
  assumes "P g0"
    and step: "\<And>g d p v. P g \<Longrightarrow> d \<in> set drugs \<Longrightarrow> p \<in> set pubs \<Longrightarrow> mentions d p \<Longrightarrow>
           v = pub_key p \<or> v = journal_key (pub_journal_name p) \<Longrightarrow>
           P (add_edge (drug_key d) v (mention_attrs p) g)"
  shows "P (connect_drugs_to_publications drugs pubs g0)"
proof -
  have "set ds \<subseteq> set drugs \<Longrightarrow> P (fst st) \<Longrightarrow> P (fst (fold (connect_drug pubs) ds st))" for ds st
  proof (induction ds arbitrary: st)
    case Nil
    then show ?case by simp
  next
    case (Cons d ds)
    have "P (fst (connect_drug pubs d st))"
      by (rule connect_drug_inv[where P=P and Ps="set pubs", OF Cons.prems(2)]) (use Cons.prems(1) step in auto)
    then show ?case using Cons by simp
  qed
  then show ?thesis using assms(1) by (simp add: connect_drugs_to_publications_def)
qed

lemma g_edges_add_nodes: "g_edges (add_nodes_to_graph drugs pubs js g) = g_edges g"
proof -
  have a: "g_edges (fold (\<lambda>x. add_node (k x) (f x)) xs h) = g_edges h" for k f and xs :: "'a list" and h
    by (induction xs arbitrary: h) auto
  show ?thesis by (simp add: add_nodes_to_graph_def a)
qed


section \<open>Entity equality\<close>

text \<open>
  C8 (code defect). The claim: two publications are equal exactly when their \<open>id\<close> and
  \<open>source_type\<close> agree, whatever their title, date and journal name; the docstring of
  \<open>Publication.__eq__\<close> says the same. The code compares all five fields: two
  publications with the same identity and hash but different titles are unequal.
\<close>

theorem Publication_eq_same_identity_unequal:
  "Publication_hash
      \<lparr>pub_id = ''1'', pub_title = ''A'', pub_date = ''2020-01-01'', pub_journal_name = ''J'',
       pub_source_type = PUBMED\<rparr>
    = Publication_hash
      \<lparr>pub_id = ''1'', pub_title = ''B'', pub_date = ''2020-01-01'', pub_journal_name = ''J'',
       pub_source_type = PUBMED\<rparr>
   \<and> \<not> Publication_eq
      \<lparr>pub_id = ''1'', pub_title = ''A'', pub_date = ''2020-01-01'', pub_journal_name = ''J'',
       pub_source_type = PUBMED\<rparr>
      \<lparr>pub_id = ''1'', pub_title = ''B'', pub_date = ''2020-01-01'', pub_journal_name = ''J'',
       pub_source_type = PUBMED\<rparr>"
  by (simp add: Publication_hash_def Publication_eq_def)

section \<open>The relationship label\<close>

lemma edges_labelled_add_edge:
  "edges_labelled g relationship_label \<Longrightarrow>
   edges_labelled (add_edge u v (mention_attrs p) g) relationship_label"
  unfolding edges_labelled_def g_edges_add_edge
  by (auto dest!: upsert_entry simp: mention_attrs_def dict_simps)

text \<open>
  C6, as the claim states it, fails: in the scenario graph the drug-to-journal edge
  carries the label of the source, which is not \<open>mentioned_in\<close>.
\<close>

theorem scenario_label_not_mentioned_in:
  "has_edge scenario_graph ''epinephrine'' ''NEJM''
   \<and> dget (edge_attrs scenario_graph ''epinephrine'' ''NEJM'') ''relationship'' = Some relationship_label
   \<and> relationship_label \<noteq> ''mentioned_in''
   \<and> \<not> edges_labelled scenario_graph ''mentioned_in''"
  by code_simp

text \<open>
  C6 (amended). Every edge of every graph produced by the Graph Builder carries the
  relationship string constant of the source (\<open>relationship_label\<close>, the French
  label with the code point 0xE9 for its accented letters), whatever listing of the
  journal set the builder is given.
\<close>

theorem build_graph_relationship_label:
  "edges_labelled (build_graph_with journals drugs pubmed_publications clinical_trials_publications)
     relationship_label"
  unfolding build_graph_with_def Let_def
  by (rule connect_inv)
     (simp_all add: edges_labelled_def g_edges_add_nodes empty_graph_def
        edges_labelled_add_edge[unfolded edges_labelled_def])

theorem build_graph_relationship_label_witness:
  "g_edges scenario_graph \<noteq> []
   \<and> list_all (\<lambda>e. dget (snd e) ''relationship'' = Some relationship_label) (g_edges scenario_graph)"
proof -
  have nonempty: "g_edges scenario_graph \<noteq> []"
    by code_simp
  have "edges_labelled scenario_graph relationship_label"
    unfolding scenario_graph_def build_graph_def by (rule build_graph_relationship_label)
  with nonempty show ?thesis
    by (simp add: edges_labelled_def list_all_iff)
qed

section \<open>The mention count of the query\<close>

text \<open>
  C2 (code defect). The claim: on the scenario the built graph has 3 nodes and 2 edges and
  the query for \<open>epinephrine\<close> returns the journal \<open>NEJM\<close> with count 1, the number of edges
  from the drug to journal nodes. The graph is as claimed, and the exported document is
  the scenario document, but the query returns count 2: the counter of a journal is set
  to 1 when the journal is first seen and then incremented for the same edge.
\<close>

theorem scenario_query_counts_two:
  "length (g_nodes scenario_graph) = 3
   \<and> length (g_edges scenario_graph) = 2
   \<and> save_graph_to_json scenario_graph = Inr scenario_document
   \<and> length (filter (\<lambda>e. dget (node_attrs scenario_graph (snd (fst e))) ''type'' = Some ''journal'')
        (out_edges scenario_graph ''epinephrine'')) = 1
   \<and> find_journals_with_most_mentions_of_drug scenario_document ''epinephrine'' = ([Some ''NEJM''], 2)"
  by code_simp

section \<open>Import of documents with missing collections\<close>

lemma load_drugs_succeeds:
  "(\<exists>g'. load_drugs recs g = Inr g') \<longleftrightarrow> (\<forall>r \<in> set recs. dget r ''name'' \<noteq> None)"
  by (induction recs arbitrary: g) (auto split: option.splits)

lemma load_publications_succeeds:
  "(\<exists>g'. load_publications ty recs g = Inr g')
     \<longleftrightarrow> (\<forall>r \<in> set recs. dget_default r ''title'' (Some []) \<noteq> None)"
  by (induction recs arbitrary: g) (auto split: option.splits)

lemma load_journals_succeeds:
  "(\<exists>g'. load_journals recs g = Inr g') \<longleftrightarrow> (\<forall>r \<in> set recs. dget r ''name'' \<noteq> None)"
  by (induction recs arbitrary: g) (auto split: option.splits)

lemma fill_missing_fields:
  "get_list (doc_drugs (fill_missing d)) = get_list (doc_drugs d)"
  "get_list (doc_pubmed (get_publications (fill_missing d))) = get_list (doc_pubmed (get_publications d))"
  "get_list (doc_clinical_trials (get_publications (fill_missing d)))
     = get_list (doc_clinical_trials (get_publications d))"
  "get_list (doc_journals (fill_missing d)) = get_list (doc_journals d)"
  "get_list (doc_relationships (fill_missing d)) = get_list (doc_relationships d)"
  by (simp_all add: fill_missing_def get_list_def get_publications_def)

lemma load_fill_missing: "load_graph_from_json (fill_missing d) = load_graph_from_json d"
  unfolding load_graph_from_json_def fill_missing_fields ..

lemma load_succeeds:
  assumes ok: "records_ok d"
  shows "\<exists>g. load_graph_from_json d = Inr g"
proof -
  obtain g1 where g1: "load_drugs (get_list (doc_drugs d)) empty_graph = Inr g1"
    using ok load_drugs_succeeds unfolding records_ok_def by blast
  obtain g2 where
    g2: "load_publications ''pubmed'' (get_list (doc_pubmed (get_publications d))) g1 = Inr g2"
    using ok load_publications_succeeds unfolding records_ok_def by blast
  obtain g3 where
    g3: "load_publications ''clinical_trial'' (get_list (doc_clinical_trials (get_publications d))) g2 = Inr g3"
    using ok load_publications_succeeds unfolding records_ok_def by blast
  obtain g4 where g4: "load_journals (get_list (doc_journals d)) g3 = Inr g4"
    using ok load_journals_succeeds unfolding records_ok_def by blast
  show ?thesis
    by (simp add: load_graph_from_json_def g1 g2 g3 g4)
qed

text \<open>
  C7, as the claim states it, fails: a document without the \<open>publications\<close>,
  \<open>journals\<close> and \<open>relationships\<close> collections is imported without error, into
  the graph of its drugs.
\<close>

theorem missing_collection_import_succeeds:
  "doc_journals document_without_journals = None
   \<and> doc_publications document_without_journals = None
   \<and> doc_relationships document_without_journals = None
   \<and> load_graph_from_json document_without_journals
       = Inr \<lparr>g_nodes = [(''epinephrine'', [(''type'', Some ''drug''), (''atccode'', Some ''A1'')])],
              g_edges = []\<rparr>"
  by code_simp

text \<open>
  C7 (amended). For every document whose present collections are lists of records with
  string or \<open>null\<close> values, a missing top-level collection (\<open>drugs\<close>, \<open>publications\<close>,
  \<open>journals\<close> or \<open>relationships\<close>) is read as an empty one: the import gives the same
  result as on the document with every missing collection written out as an empty list,
  so a missing collection never makes it fail. In particular the import succeeds when
  every drug and journal record that is present has a string \<open>name\<close> and no publication
  record that is present has a \<open>null\<close> title.
\<close>

theorem load_missing_collections_as_empty:
  "load_graph_from_json d = load_graph_from_json (fill_missing d)
   \<and> (records_ok d \<longrightarrow> (\<exists>g. load_graph_from_json d = Inr g))"
  using load_fill_missing load_succeeds by simp

theorem load_missing_collections_as_empty_witness:
  "records_ok document_without_journals
   \<and> load_graph_from_json document_without_journals
       = load_graph_from_json (fill_missing document_without_journals)
   \<and> (\<exists>g. load_graph_from_json document_without_journals = Inr g)"
proof -
  have ok: "records_ok document_without_journals"
    by code_simp
  show ?thesis
    using ok load_missing_collections_as_empty[of document_without_journals] by blast
qed

section \<open>The drug node the query looks at\<close>

lemma load_drugs_distinct:
  "load_drugs recs g = Inr g' \<Longrightarrow> distinct (node_keys g) \<Longrightarrow> distinct (node_keys g')"
  by (induction recs arbitrary: g)
     (auto split: option.splits simp: node_keys_def g_nodes_add_node upsert_distinct)

lemma load_publications_distinct:
  "load_publications ty recs g = Inr g' \<Longrightarrow> distinct (node_keys g) \<Longrightarrow> distinct (node_keys g')"
  by (induction recs arbitrary: g)
     (auto split: option.splits simp: node_keys_def g_nodes_add_node upsert_distinct)

lemma load_journals_distinct:
  "load_journals recs g = Inr g' \<Longrightarrow> distinct (node_keys g) \<Longrightarrow> distinct (node_keys g')"
  by (induction recs arbitrary: g)
     (auto split: option.splits simp: node_keys_def g_nodes_add_node upsert_distinct)

lemma load_relationship_distinct:
  "distinct (node_keys g) \<Longrightarrow> distinct (node_keys (load_relationship rel g))"
  by (auto simp: load_relationship_def node_keys_def g_nodes_add_edge upsert_distinct
      split: option.splits)

lemma fold_load_relationship_distinct:
  "distinct (node_keys g) \<Longrightarrow> distinct (node_keys (fold load_relationship rels g))"
  by (induction rels arbitrary: g) (auto simp: load_relationship_distinct)

lemma load_distinct:
  assumes "load_graph_from_json d = Inr g"
  shows "distinct (node_keys g)"
proof -
  have e: "distinct (node_keys empty_graph)"
    by (simp add: node_keys_def empty_graph_def)
  from assms show ?thesis
    by (auto simp: load_graph_from_json_def split: sum.splits
        intro!: fold_load_relationship_distinct
        dest!: load_journals_distinct load_publications_distinct load_drugs_distinct[OF _ e])
qed

lemma filter_key_distinct:
  "distinct (map fst xs) \<Longrightarrow>
   map fst (filter (\<lambda>(n, a). P a \<and> n = k) xs)
     = (if k \<in> set (map fst xs) \<and> P (case map_of xs k of None \<Rightarrow> [] | Some a \<Rightarrow> a)
        then [k] else [])"
proof (induction xs)
  case Nil
  then show ?case by simp
next
  case (Cons x xs)
  obtain n a where x: "x = (n, a)" by (cases x)
  show ?case
  proof (cases "n = k")
    case True
    with Cons.prems x have "k \<notin> set (map fst xs)" by simp
    then have "filter (\<lambda>(n, a). P a \<and> n = k) xs = []"
      by (auto simp: filter_empty_conv image_iff)
    with True x show ?thesis by simp
  next
    case False
    with Cons x show ?thesis by simp
  qed
qed

lemma drug_nodes_named_distinct:
  "distinct (node_keys g) \<Longrightarrow>
   drug_nodes_named g k
     = (if has_node g k \<and> dget (node_attrs g k) ''type'' = Some ''drug'' then [k] else [])"
  unfolding drug_nodes_named_def has_node_def node_attrs_def node_keys_def
  using filter_key_distinct[of "g_nodes g" "\<lambda>a. dget a ''type'' = Some ''drug''" k]
  by simp

text \<open>
  C5 (amended). The query looks at the drug node whose key equals the query string as it
  is given, without lower-casing it: when the imported graph has a drug node with exactly
  that key the result is computed from that node's outgoing edges, and otherwise the
  result is the "no journals found" sentinel with count 0, not a failure.
\<close>

theorem query_matches_exact_key:
  assumes "load_graph_from_json doc = Inr g"
  shows "find_journals_with_most_mentions_of_drug doc q
     = (if has_node g q \<and> dget (node_attrs g q) ''type'' = Some ''drug''
        then top_journals_of (count_mentions g [q])
        else no_journals_found)"
  using assms drug_nodes_named_distinct[OF load_distinct[OF assms], of q]
  by (simp add: find_journals_with_most_mentions_of_drug_def)

text \<open>
  C5, as the claim states it, fails: on the scenario document the mixed-case query
  \<open>Epinephrine\<close>, whose lower-cased form is the key of the drug node, matches no node
  and gets the sentinel, while the query \<open>epinephrine\<close> finds the journal.
\<close>

theorem query_is_case_sensitive:
  "load_graph_from_json scenario_document = Inr scenario_graph
   \<and> py_lower ''Epinephrine'' = ''epinephrine''
   \<and> drug_nodes_named scenario_graph ''epinephrine'' = [''epinephrine'']
   \<and> drug_nodes_named scenario_graph ''Epinephrine'' = []
   \<and> find_journals_with_most_mentions_of_drug scenario_document ''Epinephrine'' = no_journals_found
   \<and> find_journals_with_most_mentions_of_drug scenario_document ''epinephrine'' = ([Some ''NEJM''], 2)"
  by code_simp

theorem query_matches_exact_key_witness:
  "load_graph_from_json scenario_document = Inr scenario_graph
   \<and> find_journals_with_most_mentions_of_drug scenario_document ''Epinephrine'' = no_journals_found
   \<and> find_journals_with_most_mentions_of_drug scenario_document ''epinephrine''
       = top_journals_of (count_mentions scenario_graph [''epinephrine''])"
proof -
  have l: "load_graph_from_json scenario_document = Inr scenario_graph"
    by code_simp
  have a: "\<not> has_node scenario_graph ''Epinephrine''"
    by code_simp
  have b: "has_node scenario_graph ''epinephrine''
           \<and> dget (node_attrs scenario_graph ''epinephrine'') ''type'' = Some ''drug''"
    by code_simp
  show ?thesis
    using l a b query_matches_exact_key[OF l, of "''Epinephrine''"]
      query_matches_exact_key[OF l, of "''epinephrine''"]
    by simp
qed

section \<open>Invariants of the built graph\<close>

subsection \<open>Adding nodes\<close>

lemma upsert_keys_image: "fst ` set (upsert k a xs) = insert k (fst ` set xs)"
  using upsert_keys[of k a xs] by simp

lemma fold_add_node_edges [simp]:
  "g_edges (fold (\<lambda>x. add_node (key x) (attrs x)) xs g) = g_edges g"
  by (induction xs arbitrary: g) auto

lemma fold_add_node_keys:
  "set (node_keys (fold (\<lambda>x. add_node (key x) (attrs x)) xs g)) = set (node_keys g) \<union> key ` set xs"
  by (induction xs arbitrary: g) (auto simp: node_keys_def g_nodes_add_node upsert_keys_image)


lemma add_node_inv:
  assumes "\<forall>e \<in> set (g_nodes g). Q e" and "\<And>b. Q (k, dict_update b a)"
  shows "\<forall>e \<in> set (g_nodes (add_node k a g)). Q e"
proof
  fix e
  assume e: "e \<in> set (g_nodes (add_node k a g))"
  obtain k' b' where kb: "e = (k', b')" by (cases e)
  from e kb have "(k', b') \<in> set (upsert k a (g_nodes g))"
    by (simp add: g_nodes_add_node)
  from upsert_entry[OF this] show "Q e"
    unfolding kb using assms by blast
qed

lemma fold_add_node_inv:
  assumes "\<forall>e \<in> set (g_nodes g). Q e"
    and "\<And>x b. x \<in> set xs \<Longrightarrow> Q (key x, dict_update b (attrs x))"
  shows "\<forall>e \<in> set (g_nodes (fold (\<lambda>x. add_node (key x) (attrs x)) xs g)). Q e"
  using assms
proof (induction xs arbitrary: g)
  case Nil
  then show ?case by simp
next
  case (Cons x xs)
  have 1: "\<forall>e \<in> set (g_nodes (add_node (key x) (attrs x) g)). Q e"
    by (rule add_node_inv[OF Cons.prems(1)]) (rule Cons.prems(2), simp)
  have 2: "\<And>y b. y \<in> set xs \<Longrightarrow> Q (key y, dict_update b (attrs y))"
    by (rule Cons.prems(2)) simp
  have "\<forall>e \<in> set (g_nodes (fold (\<lambda>x. add_node (key x) (attrs x)) xs
            (add_node (key x) (attrs x) g))). Q e"
    using 1 2 by (rule Cons.IH)
  then show ?case by simp
qed

lemma add_nodes_keys:
  "set (node_keys (add_nodes_to_graph drugs pubs js g))
     = set (node_keys g) \<union> entity_keys drugs pubs js"
  unfolding add_nodes_to_graph_def fold_add_node_keys entity_keys_def
  by (simp add: Un_assoc)


lemma add_nodes_inv:
  assumes "\<forall>e \<in> set (g_nodes g). Q e"
    and "\<And>d b. d \<in> set drugs \<Longrightarrow> Q (drug_key d, dict_update b (drug_node_attrs d))"
    and "\<And>p b. p \<in> set pubs \<Longrightarrow> Q (pub_key p, dict_update b (pub_node_attrs p))"
    and "\<And>j b. j \<in> set js \<Longrightarrow> Q (journal_key (journal_name j), dict_update b (journal_node_attrs j))"
  shows "\<forall>e \<in> set (g_nodes (add_nodes_to_graph drugs pubs js g)). Q e"
proof -
  let ?g1 = "fold (\<lambda>d. add_node (drug_key d) (drug_node_attrs d)) drugs g"
  let ?g2 = "fold (\<lambda>p. add_node (pub_key p) (pub_node_attrs p)) pubs ?g1"
  have 1: "\<forall>e \<in> set (g_nodes ?g1). Q e"
    using assms(1,2) by (rule fold_add_node_inv)
  have 2: "\<forall>e \<in> set (g_nodes ?g2). Q e"
    using 1 assms(3) by (rule fold_add_node_inv)
  show ?thesis
    unfolding add_nodes_to_graph_def
    using 2 assms(4)
    by (rule fold_add_node_inv[where key="\<lambda>j. journal_key (journal_name j)" and attrs=journal_node_attrs])
qed

lemma built_node_ok_drug: "built_node_ok J (drug_key d, dict_update b (drug_node_attrs d))"
  by (simp add: built_node_ok_def drug_node_attrs_def dict_simps)

lemma built_node_ok_pub: "built_node_ok J (pub_key p, dict_update b (pub_node_attrs p))"
  by (cases "pub_source_type p") (simp_all add: built_node_ok_def pub_node_attrs_def dict_simps pub_key_def)

lemma built_node_ok_journal:
  "journal_name j \<in> J \<Longrightarrow> built_node_ok J (journal_key (journal_name j), dict_update b (journal_node_attrs j))"
  by (simp add: built_node_ok_def journal_node_attrs_def dict_simps)

lemma built_node_ok_empty: "built_node_ok J (k, [])"
  by (simp add: built_node_ok_def dict_simps)

lemma node_typed_drug: "node_typed (dict_update b (drug_node_attrs d))"
  by (simp add: node_typed_def drug_node_attrs_def dict_simps)

lemma node_typed_pub: "node_typed (dict_update b (pub_node_attrs p))"
  by (cases "pub_source_type p") (simp_all add: node_typed_def pub_node_attrs_def dict_simps)

lemma node_typed_journal: "node_typed (dict_update b (journal_node_attrs j))"
  by (simp add: node_typed_def journal_node_attrs_def dict_simps)

subsection \<open>Adding edges\<close>

lemma add_edge_nodes_inv:
  assumes "\<forall>e \<in> set (g_nodes g). Q e" and "\<And>k. Q (k, [])"
  shows "\<forall>e \<in> set (g_nodes (add_edge u v a g)). Q e"
proof -
  have 1: "\<forall>e \<in> set (g_nodes (add_node u [] g)). Q e"
  proof
    fix e
    assume e: "e \<in> set (g_nodes (add_node u [] g))"
    obtain k' b' where kb: "e = (k', b')" by (cases e)
    from e kb have "(k', b') \<in> set (upsert u [] (g_nodes g))"
      by (simp add: g_nodes_add_node)
    from upsert_entry[OF this] show "Q e"
      unfolding kb dict_update_Nil using assms by blast
  qed
  have 2: "\<forall>e \<in> set (g_nodes (add_node v [] (add_node u [] g))). Q e"
  proof
    fix e
    assume e: "e \<in> set (g_nodes (add_node v [] (add_node u [] g)))"
    obtain k' b' where kb: "e = (k', b')" by (cases e)
    from e kb have "(k', b') \<in> set (upsert v [] (g_nodes (add_node u [] g)))"
      by (simp add: g_nodes_add_node)
    from upsert_entry[OF this] show "Q e"
      unfolding kb dict_update_Nil using 1 assms(2) by blast
  qed
  show ?thesis
    using 2 by (simp add: add_edge_def Let_def)
qed

lemma add_edge_nodes_present:
  "u \<in> set (node_keys g) \<Longrightarrow> v \<in> set (node_keys g) \<Longrightarrow> g_nodes (add_edge u v a g) = g_nodes g"
  by (simp add: g_nodes_add_edge node_keys_def upsert_Nil_present)

lemma add_edge_node_keys:
  "set (node_keys (add_edge u v a g)) = insert u (insert v (set (node_keys g)))"
  by (auto simp: node_keys_def g_nodes_add_edge upsert_keys_image)


lemma add_edge_edge_keys:
  "set (map fst (g_edges (add_edge u v a g))) = insert (u, v) (set (map fst (g_edges g)))"
  by (simp add: g_edges_add_edge upsert_keys_image)


lemma add_edge_endpoints_present:
  "endpoints_present g \<Longrightarrow> endpoints_present (add_edge u v a g)"
  unfolding endpoints_present_def add_edge_edge_keys add_edge_node_keys by auto

lemma node_attrs_member:
  "k \<in> set (node_keys g) \<Longrightarrow> (k, node_attrs g k) \<in> set (g_nodes g)"
proof -
  assume "k \<in> set (node_keys g)"
  then obtain a where "map_of (g_nodes g) k = Some a"
    unfolding node_keys_def by (metis map_of_eq_None_iff not_Some_eq set_map)
  then show ?thesis
    by (simp add: node_attrs_def map_of_SomeD)
qed

lemma node_attrs_unique:
  "distinct (node_keys g) \<Longrightarrow> (k, a) \<in> set (g_nodes g) \<Longrightarrow> node_attrs g k = a"
  by (simp add: node_keys_def node_attrs_def)

subsection \<open>The graph of \<open>build_graph\<close>\<close>



lemma build_endpoints_present:
  "endpoints_present (build_graph_with js drugs pm ct)"
  unfolding build_graph_with_def Let_def
proof (rule connect_inv, goal_cases)
  case 1
  show ?case
    by (simp add: endpoints_present_def g_edges_add_nodes empty_graph_def)
next
  case (2 g d p v)
  show ?case
    using 2(1) by (rule add_edge_endpoints_present)
qed

lemma build_nodes_ok:
  "\<forall>e \<in> set (g_nodes (build_graph_with js drugs pm ct)). built_node_ok (set (map journal_name js)) e"
  unfolding build_graph_with_def Let_def
proof (rule connect_inv[where P="\<lambda>g. \<forall>e \<in> set (g_nodes g). built_node_ok (set (map journal_name js)) e"],
    goal_cases)
  case 1
  show ?case
  proof (rule add_nodes_inv[where Q="built_node_ok (set (map journal_name js))"], goal_cases)
    case 1
    show ?case by (simp add: empty_graph_def)
  next
    case (2 d b)
    show ?case by (rule built_node_ok_drug)
  next
    case (3 p b)
    show ?case by (rule built_node_ok_pub)
  next
    case (4 j b)
    then have "journal_name j \<in> set (map journal_name js)" by simp
    then show ?case by (rule built_node_ok_journal)
  qed
next
  case (2 g d p v)
  show ?case
    using 2(1) by (rule add_edge_nodes_inv) (rule built_node_ok_empty)
qed

subsection \<open>The edges of the built graph\<close>

lemma edge_keys_add_edge: "edge_keys (add_edge u v a g) = insert (u, v) (edge_keys g)"
  unfolding edge_keys_def by (rule add_edge_edge_keys)

lemma has_edge_edge_keys: "has_edge g u v \<longleftrightarrow> (u, v) \<in> edge_keys g"
  by (simp add: has_edge_def edge_keys_def)

lemma connect_pub_edges:
  assumes "snd st \<subseteq> edge_keys (fst st)"
  shows "snd (connect_pub d p st) \<subseteq> edge_keys (fst (connect_pub d p st))"
    and "edge_keys (fst st) \<subseteq> edge_keys (fst (connect_pub d p st))"
    and "mentions d p \<Longrightarrow> (drug_key d, pub_key p) \<in> edge_keys (fst (connect_pub d p st))"
    and "mentions d p \<Longrightarrow>
           (drug_key d, journal_key (pub_journal_name p)) \<in> edge_keys (fst (connect_pub d p st))"
proof -
  obtain g c where st: "st = (g, c)" by (cases st)
  from assms st have c: "c \<subseteq> edge_keys g" by simp
  show "snd (connect_pub d p st) \<subseteq> edge_keys (fst (connect_pub d p st))"
    using c unfolding st connect_pub_def Let_def
    by (auto simp: edge_keys_add_edge)
  show "edge_keys (fst st) \<subseteq> edge_keys (fst (connect_pub d p st))"
    unfolding st connect_pub_def Let_def
    by (auto simp: edge_keys_add_edge)
  show "mentions d p \<Longrightarrow> (drug_key d, pub_key p) \<in> edge_keys (fst (connect_pub d p st))"
    unfolding st connect_pub_def Let_def
    by (auto simp: edge_keys_add_edge)
  show "mentions d p \<Longrightarrow>
           (drug_key d, journal_key (pub_journal_name p)) \<in> edge_keys (fst (connect_pub d p st))"
    using c unfolding st connect_pub_def Let_def
    by (auto simp: edge_keys_add_edge)
qed

lemma connect_drug_edges:
  assumes "snd st \<subseteq> edge_keys (fst st)"
  shows "snd (connect_drug ps d st) \<subseteq> edge_keys (fst (connect_drug ps d st))
     \<and> edge_keys (fst st) \<subseteq> edge_keys (fst (connect_drug ps d st))
     \<and> (\<forall>p \<in> set ps. mentions d p \<longrightarrow>
           (drug_key d, pub_key p) \<in> edge_keys (fst (connect_drug ps d st))
           \<and> (drug_key d, journal_key (pub_journal_name p))
                \<in> edge_keys (fst (connect_drug ps d st)))"
  using assms
proof (induction ps arbitrary: st)
  case Nil
  then show ?case by (simp add: connect_drug_def)
next
  case (Cons p ps)
  let ?st1 = "connect_pub d p st"
  let ?st2 = "connect_drug ps d ?st1"
  note a = connect_pub_edges[OF Cons.prems, of d p]
  from Cons.IH[OF a(1)]
  have i1: "snd ?st2 \<subseteq> edge_keys (fst ?st2)"
    and i2: "edge_keys (fst ?st1) \<subseteq> edge_keys (fst ?st2)"
    and i3: "\<forall>q \<in> set ps. mentions d q \<longrightarrow>
           (drug_key d, pub_key q) \<in> edge_keys (fst ?st2)
           \<and> (drug_key d, journal_key (pub_journal_name q)) \<in> edge_keys (fst ?st2)"
    by simp_all
  have eq: "connect_drug (p # ps) d st = ?st2"
    by (simp add: connect_drug_def)
  have "edge_keys (fst st) \<subseteq> edge_keys (fst ?st2)"
    using a(2) i2 by (rule subset_trans)
  moreover have "\<forall>q \<in> set (p # ps). mentions d q \<longrightarrow>
           (drug_key d, pub_key q) \<in> edge_keys (fst ?st2)
           \<and> (drug_key d, journal_key (pub_journal_name q)) \<in> edge_keys (fst ?st2)"
  proof (intro ballI impI)
    fix q
    assume q: "q \<in> set (p # ps)" and m: "mentions d q"
    show "(drug_key d, pub_key q) \<in> edge_keys (fst ?st2)
           \<and> (drug_key d, journal_key (pub_journal_name q)) \<in> edge_keys (fst ?st2)"
    proof (cases "q = p")
      case True
      with m a(3,4) i2 show ?thesis by blast
    next
      case False
      with q have "q \<in> set ps" by simp
      with i3 m show ?thesis by blast
    qed
  qed
  ultimately show ?case
    unfolding eq using i1 by blast
qed

lemma connect_edges_sup:
  assumes "snd st \<subseteq> edge_keys (fst st)"
  shows "snd (fold (connect_drug pubs) ds st) \<subseteq> edge_keys (fst (fold (connect_drug pubs) ds st))
     \<and> edge_keys (fst st) \<subseteq> edge_keys (fst (fold (connect_drug pubs) ds st))
     \<and> (\<forall>d \<in> set ds. \<forall>p \<in> set pubs. mentions d p \<longrightarrow>
           (drug_key d, pub_key p) \<in> edge_keys (fst (fold (connect_drug pubs) ds st))
           \<and> (drug_key d, journal_key (pub_journal_name p))
                \<in> edge_keys (fst (fold (connect_drug pubs) ds st)))"
  using assms
proof (induction ds arbitrary: st)
  case Nil
  then show ?case by simp
next
  case (Cons d ds)
  let ?st1 = "connect_drug pubs d st"
  let ?st2 = "fold (connect_drug pubs) ds ?st1"
  from connect_drug_edges[OF Cons.prems, of pubs d]
  have a1: "snd ?st1 \<subseteq> edge_keys (fst ?st1)"
    and a2: "edge_keys (fst st) \<subseteq> edge_keys (fst ?st1)"
    and a3: "\<forall>p \<in> set pubs. mentions d p \<longrightarrow>
           (drug_key d, pub_key p) \<in> edge_keys (fst ?st1)
           \<and> (drug_key d, journal_key (pub_journal_name p)) \<in> edge_keys (fst ?st1)"
    by simp_all
  from Cons.IH[OF a1]
  have i1: "snd ?st2 \<subseteq> edge_keys (fst ?st2)"
    and i2: "edge_keys (fst ?st1) \<subseteq> edge_keys (fst ?st2)"
    and i3: "\<forall>e \<in> set ds. \<forall>p \<in> set pubs. mentions e p \<longrightarrow>
           (drug_key e, pub_key p) \<in> edge_keys (fst ?st2)
           \<and> (drug_key e, journal_key (pub_journal_name p)) \<in> edge_keys (fst ?st2)"
    by simp_all
  have eq: "fold (connect_drug pubs) (d # ds) st = ?st2"
    by simp
  have "edge_keys (fst st) \<subseteq> edge_keys (fst ?st2)"
    using a2 i2 by (rule subset_trans)
  moreover have "\<forall>e \<in> set (d # ds). \<forall>p \<in> set pubs. mentions e p \<longrightarrow>
           (drug_key e, pub_key p) \<in> edge_keys (fst ?st2)
           \<and> (drug_key e, journal_key (pub_journal_name p)) \<in> edge_keys (fst ?st2)"
  proof (intro ballI impI)
    fix e p
    assume e: "e \<in> set (d # ds)" and p: "p \<in> set pubs" and m: "mentions e p"
    show "(drug_key e, pub_key p) \<in> edge_keys (fst ?st2)
           \<and> (drug_key e, journal_key (pub_journal_name p)) \<in> edge_keys (fst ?st2)"
    proof (cases "e = d")
      case True
      with p m a3 i2 show ?thesis by blast
    next
      case False
      with e have "e \<in> set ds" by simp
      with i3 p m show ?thesis by blast
    qed
  qed
  ultimately show ?case
    unfolding eq using i1 by blast
qed

lemma connect_edge_keys:
  "edge_keys (connect_drugs_to_publications drugs pubs g) = edge_keys g \<union> mention_edges drugs pubs"
proof
  show "edge_keys (connect_drugs_to_publications drugs pubs g)
          \<subseteq> edge_keys g \<union> mention_edges drugs pubs"
  proof (rule connect_inv[where P="\<lambda>h. edge_keys h \<subseteq> edge_keys g \<union> mention_edges drugs pubs"],
      goal_cases)
    case 1
    show ?case by simp
  next
    case (2 h d p v)
    have "(drug_key d, v) \<in> mention_edges drugs pubs"
      unfolding mention_edges_def using 2(2-5) by blast
    then show ?case
      using 2(1) unfolding edge_keys_add_edge by blast
  qed
next
  have "snd (g, {}) \<subseteq> edge_keys (fst (g, ({} :: (string \<times> string) set)))"
    by simp
  from connect_edges_sup[OF this, of pubs drugs]
  have 1: "edge_keys g \<subseteq> edge_keys (connect_drugs_to_publications drugs pubs g)"
    and 2: "\<forall>d \<in> set drugs. \<forall>p \<in> set pubs. mentions d p \<longrightarrow>
           (drug_key d, pub_key p) \<in> edge_keys (connect_drugs_to_publications drugs pubs g)
           \<and> (drug_key d, journal_key (pub_journal_name p))
                \<in> edge_keys (connect_drugs_to_publications drugs pubs g)"
    unfolding connect_drugs_to_publications_def by simp_all
  have "mention_edges drugs pubs \<subseteq> edge_keys (connect_drugs_to_publications drugs pubs g)"
    unfolding mention_edges_def using 2 by blast
  with 1 show "edge_keys g \<union> mention_edges drugs pubs
          \<subseteq> edge_keys (connect_drugs_to_publications drugs pubs g)"
    by simp
qed

lemma build_edge_keys:
  "edge_keys (build_graph_with js drugs pm ct) = mention_edges drugs (pm @ ct)"
  unfolding build_graph_with_def Let_def connect_edge_keys
  by (simp add: edge_keys_def g_edges_add_nodes empty_graph_def)

section \<open>Journal relationships in the exported document\<close>

lemma dget_default_Some: "dget d k = Some v \<Longrightarrow> dget_default d k x = Some v"
  by (auto simp: dget_def dget_default_def split: option.splits)

lemma save_nodes_built:
  assumes "\<forall>e \<in> set nodes. built_node_ok J e"
  shows "save_nodes nodes
     = Inr (drug_records nodes, publication_records ''pubmed'' nodes,
            publication_records ''clinical_trial'' nodes, journal_records nodes)"
  using assms
proof (induction nodes)
  case Nil
  show ?case
    by (simp add: drug_records_def publication_records_def journal_records_def)
next
  case (Cons e nodes)
  obtain k a where e: "e = (k, a)" by (cases e)
  from Cons.prems have ok: "built_node_ok J (k, a)" and rest: "\<forall>e \<in> set nodes. built_node_ok J e"
    by (simp_all add: e)
  note ih = Cons.IH[OF rest]
  consider (none) "dget a ''type'' = None"
    | (drug) "dget a ''type'' = Some ''drug''"
    | (pubmed) "dget a ''type'' = Some ''pubmed''"
    | (trial) "dget a ''type'' = Some ''clinical_trial''"
    | (journal) "dget a ''type'' = Some ''journal''"
    using ok unfolding built_node_ok_def by fastforce
  then show ?case
  proof cases
    case none
    then show ?thesis
      by (simp add: Let_def e ih drug_records_def publication_records_def journal_records_def)
  next
    case drug
    with ok obtain c where c: "dget a ''atccode'' = Some c"
      unfolding built_node_ok_def by fastforce
    show ?thesis
      by (simp add: Let_def e ih drug c dget_default_Some[OF c]
          drug_records_def publication_records_def journal_records_def)
  next
    case pubmed
    with ok obtain i t d j where f: "dget a ''id'' = Some i" "dget a ''title'' = Some t"
        "dget a ''date'' = Some d" "dget a ''journal_name'' = Some j"
      unfolding built_node_ok_def by fastforce
    show ?thesis
      by (simp add: Let_def e ih pubmed f drug_records_def publication_records_def journal_records_def)
  next
    case trial
    with ok obtain i t d j where f: "dget a ''id'' = Some i" "dget a ''title'' = Some t"
        "dget a ''date'' = Some d" "dget a ''journal_name'' = Some j"
      unfolding built_node_ok_def by fastforce
    show ?thesis
      by (simp add: Let_def e ih trial f drug_records_def publication_records_def journal_records_def)
  next
    case journal
    with ok obtain n where n: "dget a ''name'' = Some n"
      unfolding built_node_ok_def by fastforce
    show ?thesis
      by (simp add: Let_def e ih journal n drug_records_def publication_records_def journal_records_def)
  qed
qed

lemma save_built:
  assumes "\<forall>e \<in> set (g_nodes g). built_node_ok J e"
  shows "save_graph_to_json g
     = Inr \<lparr>doc_drugs = Some (drug_records (g_nodes g)),
            doc_publications = Some
              \<lparr>doc_pubmed = Some (publication_records ''pubmed'' (g_nodes g)),
               doc_clinical_trials = Some (publication_records ''clinical_trial'' (g_nodes g))\<rparr>,
            doc_journals = Some (journal_records (g_nodes g)),
            doc_relationships = Some (map (save_relationship g) (graph_edges g))\<rparr>"
  by (simp add: save_graph_to_json_def save_nodes_built[OF assms])

lemma node_attrs_typed_member:
  "dget (node_attrs g k) ''type'' = Some t \<Longrightarrow> (k, node_attrs g k) \<in> set (g_nodes g)"
  by (cases "map_of (g_nodes g) k") (auto simp: node_attrs_def dget_Nil dest: map_of_SomeD)

lemma save_relationship_target:
  "dget (rel_target (save_relationship g ((u, v), a))) ''type'' = dget (node_attrs g v) ''type''"
  "dget (node_attrs g v) ''type'' = Some ''journal'' \<Longrightarrow>
     rel_target (save_relationship g ((u, v), a))
       = [(''id'', dget (node_attrs g v) ''name''), (''type'', Some ''journal'')]"
  by (simp_all add: save_relationship_def Let_def dict_simps)

lemma resolve_target_journal:
  "rel_target rel = [(''id'', Some n), (''type'', Some ''journal'')] \<Longrightarrow>
   resolve_target g rel = (if n = [] then None else Some (journal_key n))"
  by (simp add: resolve_target_def Let_def dict_simps journal_key_def)

lemma built_journal_target:
  assumes "rel \<in> set (map (save_relationship (build_graph_with js drugs pm ct))
                        (graph_edges (build_graph_with js drugs pm ct)))"
    and "dget (rel_target rel) ''type'' = Some ''journal''"
  shows "\<exists>n. dget (rel_target rel) ''id'' = Some n
           \<and> n \<in> set (map journal_name js)
           \<and> has_node (build_graph_with js drugs pm ct) (journal_key n)
           \<and> dget (node_attrs (build_graph_with js drugs pm ct) (journal_key n)) ''name'' = Some n
           \<and> resolve_target g' rel = (if n = [] then None else Some (journal_key n))"
proof -
  let ?G = "build_graph_with js drugs pm ct"
  from assms(1) obtain u v a where rel: "rel = save_relationship ?G ((u, v), a)"
    by auto
  from assms(2) have ty: "dget (node_attrs ?G v) ''type'' = Some ''journal''"
    unfolding rel save_relationship_target(1) .
  from node_attrs_typed_member[OF ty] have mem: "(v, node_attrs ?G v) \<in> set (g_nodes ?G)" .
  with build_nodes_ok[of js drugs pm ct] have "built_node_ok (set (map journal_name js)) (v, node_attrs ?G v)"
    by blast
  with ty obtain n where n: "n \<in> set (map journal_name js)"
      "dget (node_attrs ?G v) ''name'' = Some n" "v = journal_key n"
    unfolding built_node_ok_def by fastforce
  have tgt: "rel_target rel = [(''id'', Some n), (''type'', Some ''journal'')]"
    unfolding rel using save_relationship_target(2)[OF ty] n(2) by simp
  have hn: "has_node ?G (journal_key n)"
    using mem n(3) by (force simp: has_node_def node_keys_def)
  show ?thesis
    using n tgt hn resolve_target_journal[OF tgt, of g'] by (auto simp: dict_simps)
qed

text \<open>
  C9 (amended). Every graph the builder produces is exported without error, and in the
  exported document the \<open>target.id\<close> of every journal relationship is the \<open>name\<close>
  attribute of the journal node, which is the full name of one of the journals; the node
  key is that name cut to 20 characters. The import resolves the relationship by cutting
  \<open>target.id\<close> to 20 characters (and drops it when the name is empty).
\<close>

theorem export_journal_target_is_full_name:
  "\<exists>doc. save_graph_to_json (build_graph_with js drugs pm ct) = Inr doc
     \<and> (\<forall>rel \<in> set (get_list (doc_relationships doc)).
           dget (rel_target rel) ''type'' = Some ''journal'' \<longrightarrow>
           (\<exists>n. dget (rel_target rel) ''id'' = Some n
              \<and> n \<in> set (map journal_name js)
              \<and> has_node (build_graph_with js drugs pm ct) (journal_key n)
              \<and> dget (node_attrs (build_graph_with js drugs pm ct) (journal_key n)) ''name'' = Some n
              \<and> resolve_target g' rel = (if n = [] then None else Some (journal_key n))))"
  unfolding save_built[OF build_nodes_ok]
  using built_journal_target[of _ js drugs pm ct g']
  by (simp add: get_list_def)

text \<open>
  C9, as the claim states it, fails: for a journal whose name is longer than 20
  characters the exported \<open>target.id\<close> is the full name, not the truncated node key.
\<close>

theorem export_journal_target_not_truncated:
  "node_keys long_journal_graph = [''betamethasone'', ''effects of betametha'', ''The journal of mater'']
   \<and> (case save_graph_to_json long_journal_graph of
        Inl e \<Rightarrow> []
      | Inr doc \<Rightarrow> map (\<lambda>rel. (dget (rel_target rel) ''type'', dget (rel_target rel) ''id''))
                    (get_list (doc_relationships doc)))
      = [(Some ''pubmed'', Some ''10''),
         (Some ''journal'', Some ''The journal of maternal-fetal & neonatal medicine'')]
   \<and> journal_key ''The journal of maternal-fetal & neonatal medicine'' = ''The journal of mater''
   \<and> ''The journal of maternal-fetal & neonatal medicine'' \<noteq> ''The journal of mater''"
  by code_simp


theorem export_journal_target_is_full_name_witness:
  "has_node long_journal_graph (journal_key ''The journal of maternal-fetal & neonatal medicine'')
   \<and> dget (node_attrs long_journal_graph
              (journal_key ''The journal of maternal-fetal & neonatal medicine'')) ''name''
       = Some ''The journal of maternal-fetal & neonatal medicine''
   \<and> resolve_target empty_graph long_journal_relationship
       = Some (journal_key ''The journal of maternal-fetal & neonatal medicine'')"
proof -
  let ?n = "''The journal of maternal-fetal & neonatal medicine''"
  let ?js = "extract_journals (long_journal_pubmed @ [])"
  have G: "long_journal_graph = build_graph_with ?js long_journal_drugs long_journal_pubmed []"
    by (simp add: long_journal_graph_def build_graph_def)
  have mem: "case save_graph_to_json long_journal_graph of
               Inl e \<Rightarrow> False
             | Inr doc \<Rightarrow> long_journal_relationship \<in> set (get_list (doc_relationships doc))"
    by code_simp
  have ty: "dget (rel_target long_journal_relationship) ''type'' = Some ''journal''"
    and idn: "dget (rel_target long_journal_relationship) ''id'' = Some ?n"
    by (simp_all add: long_journal_relationship_def dict_simps)
  from export_journal_target_is_full_name[of ?js long_journal_drugs long_journal_pubmed "[]" empty_graph]
  obtain doc where doc: "save_graph_to_json long_journal_graph = Inr doc"
    and all: "\<forall>rel \<in> set (get_list (doc_relationships doc)).
           dget (rel_target rel) ''type'' = Some ''journal'' \<longrightarrow>
           (\<exists>n. dget (rel_target rel) ''id'' = Some n
              \<and> n \<in> set (map journal_name ?js)
              \<and> has_node long_journal_graph (journal_key n)
              \<and> dget (node_attrs long_journal_graph (journal_key n)) ''name'' = Some n
              \<and> resolve_target empty_graph rel = (if n = [] then None else Some (journal_key n)))"
    unfolding G by blast
  from mem doc have "long_journal_relationship \<in> set (get_list (doc_relationships doc))"
    by simp
  with all ty idn show ?thesis
    by fastforce
qed

section \<open>Node types\<close>

lemma add_nodes_typed:
  "\<forall>e \<in> set (g_nodes (add_nodes_to_graph drugs pubs js empty_graph)). node_typed (snd e)"
proof (rule add_nodes_inv[where Q="\<lambda>e. node_typed (snd e)"], goal_cases)
  case 1
  show ?case by (simp add: empty_graph_def)
next
  case (2 d b)
  show ?case by (simp add: node_typed_drug)
next
  case (3 p b)
  show ?case by (simp add: node_typed_pub)
next
  case (4 j b)
  show ?case by (simp add: node_typed_journal)
qed

lemma add_nodes_empty_keys:
  "set (node_keys (add_nodes_to_graph drugs pubs js empty_graph)) = entity_keys drugs pubs js"
  unfolding add_nodes_keys by (simp add: node_keys_def empty_graph_def)

lemma build_nodes_unchanged:
  assumes ex: "extracted_journals (pm @ ct) js"
    and nb: "matched_journals_nonblank drugs (pm @ ct)"
  shows "g_nodes (build_graph_with js drugs pm ct)
           = g_nodes (add_nodes_to_graph drugs (pm @ ct) js empty_graph)"
  unfolding build_graph_with_def Let_def
proof (rule connect_inv[where P="\<lambda>g. g_nodes g
          = g_nodes (add_nodes_to_graph drugs (pm @ ct) js empty_graph)"], goal_cases)
  case 1
  show ?case by simp
next
  case (2 g d p v)
  have keys: "set (node_keys g) = entity_keys drugs (pm @ ct) js"
    using 2(1) add_nodes_empty_keys[of drugs "pm @ ct" js] by (simp add: node_keys_def)
  have u: "drug_key d \<in> set (node_keys g)"
    unfolding keys entity_keys_def using 2(2) by simp
  have v: "v \<in> set (node_keys g)"
  proof (cases "v = pub_key p")
    case True
    then show ?thesis unfolding keys entity_keys_def using 2(3) by auto
  next
    case False
    with 2(5) have v: "v = journal_key (pub_journal_name p)" by simp
    from nb 2(2,3,4) have "py_nonblank (pub_journal_name p)"
      unfolding matched_journals_nonblank_def by blast
    with 2(3) have "pub_journal_name p \<in> set (filter py_nonblank (map pub_journal_name (pm @ ct)))"
      by auto
    with ex have "pub_journal_name p \<in> set (map journal_name js)"
      unfolding extracted_journals_def by simp
    then have "v \<in> (\<lambda>j. journal_key (journal_name j)) ` set js"
      unfolding v by auto
    then show ?thesis unfolding keys entity_keys_def by simp
  qed
  show ?case
    using add_edge_nodes_present[OF u v] 2(1) by simp
qed

lemma build_all_typed:
  assumes ex: "extracted_journals (pm @ ct) js"
    and nb: "matched_journals_nonblank drugs (pm @ ct)"
  shows "all_typed (build_graph_with js drugs pm ct)"
proof -
  let ?G = "build_graph_with js drugs pm ct"
  have nodes: "\<forall>e \<in> set (g_nodes ?G). node_typed (snd e)"
    unfolding build_nodes_unchanged[OF ex nb] by (rule add_nodes_typed)
  have key: "node_typed (node_attrs ?G k)" if "k \<in> set (node_keys ?G)" for k
    using node_attrs_member[OF that] nodes by fastforce
  have edges: "\<forall>e \<in> set (g_edges ?G).
      node_typed (node_attrs ?G (fst (fst e))) \<and> node_typed (node_attrs ?G (snd (fst e)))"
  proof
    fix e
    assume "e \<in> set (g_edges ?G)"
    then have "fst e \<in> set (map fst (g_edges ?G))" by simp
    with build_endpoints_present[of js drugs pm ct]
    have "fst (fst e) \<in> set (node_keys ?G)" "snd (fst e) \<in> set (node_keys ?G)"
      unfolding endpoints_present_def by blast+
    then show "node_typed (node_attrs ?G (fst (fst e))) \<and> node_typed (node_attrs ?G (snd (fst e)))"
      using key by simp
  qed
  show ?thesis
    unfolding all_typed_def list_all_iff using nodes edges by simp
qed

lemma build_untyped_outside_entities:
  "\<forall>e \<in> set (g_nodes (build_graph_with js drugs pm ct)).
      fst e \<notin> entity_keys drugs (pm @ ct) js \<longrightarrow> snd e = []"
  unfolding build_graph_with_def Let_def
proof (rule connect_inv[where P="\<lambda>g. \<forall>e \<in> set (g_nodes g).
          fst e \<notin> entity_keys drugs (pm @ ct) js \<longrightarrow> snd e = []"], goal_cases)
  case 1
  have "fst e \<in> entity_keys drugs (pm @ ct) js"
    if "e \<in> set (g_nodes (add_nodes_to_graph drugs (pm @ ct) js empty_graph))" for e
    using that add_nodes_empty_keys[of drugs "pm @ ct" js] by (force simp: node_keys_def)
  then show ?case by blast
next
  case (2 g d p v)
  show ?case
    using 2(1) by (rule add_edge_nodes_inv) simp
qed

lemma build_blank_journal_node:
  assumes "d \<in> set drugs" and "p \<in> set (pm @ ct)" and "mentions d p"
    and "journal_key (pub_journal_name p) \<notin> entity_keys drugs (pm @ ct) js"
  shows "has_edge (build_graph_with js drugs pm ct) (drug_key d) (journal_key (pub_journal_name p))"
    and "has_node (build_graph_with js drugs pm ct) (journal_key (pub_journal_name p))"
    and "node_attrs (build_graph_with js drugs pm ct) (journal_key (pub_journal_name p)) = []"
proof -
  let ?G = "build_graph_with js drugs pm ct"
  let ?k = "journal_key (pub_journal_name p)"
  have "(drug_key d, ?k) \<in> mention_edges drugs (pm @ ct)"
    unfolding mention_edges_def using assms(1-3) by blast
  then have e: "(drug_key d, ?k) \<in> edge_keys ?G"
    unfolding build_edge_keys .
  then show he: "has_edge ?G (drug_key d) ?k"
    by (simp add: has_edge_edge_keys)
  from e build_endpoints_present[of js drugs pm ct]
  have k: "?k \<in> set (node_keys ?G)"
    unfolding endpoints_present_def edge_keys_def by fastforce
  then show "has_node ?G ?k"
    by (simp add: has_node_def)
  from node_attrs_member[OF k] build_untyped_outside_entities[of js drugs pm ct] assms(4)
  show "node_attrs ?G ?k = []"
    by fastforce
qed

text \<open>
  C10 (amended). Let the journal list be any listing of the non-blank journal names. If
  every publication whose title mentions some drug has a non-blank journal name, every
  node of the built graph, and so every edge endpoint, carries one of the types drug,
  pubmed, clinical_trial, journal. Without that precondition, a publication that mentions
  a drug and has a blank journal name makes the drug-to-journal edge end at a node keyed
  by the truncated blank name that has no attribute at all, provided no drug, publication
  or journal has that key already.
\<close>

theorem build_graph_node_types:
  assumes "extracted_journals (pm @ ct) js"
  shows "(matched_journals_nonblank drugs (pm @ ct) \<longrightarrow> all_typed (build_graph_with js drugs pm ct))
     \<and> (d \<in> set drugs \<and> p \<in> set (pm @ ct) \<and> mentions d p
          \<and> \<not> py_nonblank (pub_journal_name p)
          \<and> journal_key (pub_journal_name p) \<notin> entity_keys drugs (pm @ ct) js \<longrightarrow>
        has_edge (build_graph_with js drugs pm ct) (drug_key d) (journal_key (pub_journal_name p))
        \<and> has_node (build_graph_with js drugs pm ct) (journal_key (pub_journal_name p))
        \<and> node_attrs (build_graph_with js drugs pm ct) (journal_key (pub_journal_name p)) = [])"
  using build_all_typed[OF assms] build_blank_journal_node[of d drugs p pm ct js]
  by blast


theorem build_graph_node_types_witness:
  "extracted_journals (scenario_pubmed @ []) (extract_journals (scenario_pubmed @ []))
   \<and> matched_journals_nonblank scenario_drugs (scenario_pubmed @ [])
   \<and> all_typed scenario_graph
   \<and> \<not> matched_journals_nonblank blank_journal_drugs (blank_journal_pubmed @ [])
   \<and> has_edge blank_journal_graph ''x'' []
   \<and> has_node blank_journal_graph []
   \<and> node_attrs blank_journal_graph [] = []"
proof -
  let ?d = "\<lparr>drug_atccode = ''A1'', drug_name = ''x''\<rparr>"
  let ?p = "\<lparr>pub_id = ''1'', pub_title = ''on x'', pub_date = ''2020-01-01'', pub_journal_name = [],
       pub_source_type = PUBMED\<rparr>"
  have ex1: "extracted_journals (scenario_pubmed @ []) (extract_journals (scenario_pubmed @ []))"
    by code_simp
  have nb1: "matched_journals_nonblank scenario_drugs (scenario_pubmed @ [])"
    by code_simp
  have ex2: "extracted_journals (blank_journal_pubmed @ []) (extract_journals (blank_journal_pubmed @ []))"
    by code_simp
  have nb2: "\<not> matched_journals_nonblank blank_journal_drugs (blank_journal_pubmed @ [])"
    by code_simp
  have h: "?d \<in> set blank_journal_drugs" "?p \<in> set (blank_journal_pubmed @ [])" "mentions ?d ?p"
    "\<not> py_nonblank (pub_journal_name ?p)"
    "journal_key (pub_journal_name ?p)
       \<notin> entity_keys blank_journal_drugs (blank_journal_pubmed @ [])
           (extract_journals (blank_journal_pubmed @ []))"
    by code_simp+
  have k: "drug_key ?d = ''x''" "journal_key (pub_journal_name ?p) = []"
    by code_simp+
  have a: "all_typed scenario_graph"
    unfolding scenario_graph_def build_graph_def
    using build_graph_node_types[OF ex1, of scenario_drugs] nb1 by blast
  have b: "has_edge blank_journal_graph ''x'' [] \<and> has_node blank_journal_graph []
           \<and> node_attrs blank_journal_graph [] = []"
    unfolding blank_journal_graph_def build_graph_def
    using build_graph_node_types[OF ex2, of blank_journal_drugs ?d ?p] h unfolding k by blast
  show ?thesis
    using ex1 nb1 nb2 a b by blast
qed

text \<open>
  C10, as the claim states it, fails in its second half: here a publication that mentions
  the drug has an empty journal name, yet the edge for that name ends at the node of
  another publication (one with an empty title), which has the type pubmed, and every
  node of the graph is typed.
\<close>

theorem blank_journal_key_of_typed_node:
  "\<not> matched_journals_nonblank blank_journal_drugs (blank_key_taken_pubmed @ [])
   \<and> mentions \<lparr>drug_atccode = ''A1'', drug_name = ''x''\<rparr> (hd blank_key_taken_pubmed)
   \<and> \<not> py_nonblank (pub_journal_name (hd blank_key_taken_pubmed))
   \<and> journal_key (pub_journal_name (hd blank_key_taken_pubmed)) = []
   \<and> has_edge blank_key_taken_graph ''x'' []
   \<and> dget (node_attrs blank_key_taken_graph []) ''type'' = Some ''pubmed''
   \<and> all_typed blank_key_taken_graph"
  by code_simp

section \<open>Edges from drugs to publications\<close>

lemma py_in_sublist: "py_in s t \<longleftrightarrow> sublist s t"
  by (induction t) (simp_all add: sublist_Cons_right)

lemma mentions_drug_key: "drug_key d = drug_key d' \<Longrightarrow> mentions d p = mentions d' p"
  by (simp add: mentions_def drug_key_def)

lemma mentions_title:
  "py_lower (pub_title p) = py_lower (pub_title q) \<Longrightarrow> mentions d p = mentions d q"
  by (simp add: mentions_def)

lemma mention_edges_iff:
  "(u, v) \<in> mention_edges drugs pubs \<longleftrightarrow>
     (\<exists>d \<in> set drugs. \<exists>p \<in> set pubs. u = drug_key d \<and> mentions d p
        \<and> (v = pub_key p \<or> v = journal_key (pub_journal_name p)))"
  unfolding mention_edges_def by auto

lemma build_has_edge:
  "has_edge (build_graph_with js drugs pm ct) u v \<longleftrightarrow> (u, v) \<in> mention_edges drugs (pm @ ct)"
  by (simp add: has_edge_edge_keys build_edge_keys)

lemma build_pub_edge_if:
  assumes "d \<in> set drugs" and "p \<in> set (pm @ ct)" and "mentions d p"
  shows "has_edge (build_graph_with js drugs pm ct) (drug_key d) (pub_key p)"
  unfolding build_has_edge mention_edges_iff using assms by blast

lemma build_pub_edge_only_if:
  assumes e: "has_edge (build_graph_with js drugs pm ct) (drug_key d) (pub_key p)"
    and t: "\<forall>q \<in> set (pm @ ct). pub_key q = pub_key p \<longrightarrow> py_lower (pub_title q) = py_lower (pub_title p)"
    and j: "\<forall>q \<in> set (pm @ ct). mentions d q \<longrightarrow> journal_key (pub_journal_name q) \<noteq> pub_key p"
  shows "mentions d p"
proof -
  from e obtain d' q where d': "d' \<in> set drugs" and q: "q \<in> set (pm @ ct)" and m: "mentions d' q"
    and k: "drug_key d' = drug_key d"
    and vv: "pub_key p = pub_key q \<or> pub_key p = journal_key (pub_journal_name q)"
    unfolding build_has_edge mention_edges_iff by metis
  from m k have mq: "mentions d q"
    using mentions_drug_key[of d' d q] by simp
  with j q have "journal_key (pub_journal_name q) \<noteq> pub_key p" by blast
  with vv have "pub_key q = pub_key p" by auto
  with t q have "py_lower (pub_title q) = py_lower (pub_title p)" by blast
  from mentions_title[OF this, of d] mq show ?thesis by simp
qed

text \<open>
  C4 (amended). The builder's test is literal containment of the lower-cased drug name in
  the lower-cased title. For a drug and a publication of the input, if the name occurs in
  the title then the graph has the edge from the drug's node to the publication's node;
  and the edge exists only if the name occurs in the title, provided every publication
  with the same node key has the same title up to case and no journal of a publication
  mentioning the drug has that node key.
\<close>

theorem drug_publication_edge_iff_mention:
  assumes "d \<in> set drugs" and "p \<in> set (pm @ ct)"
  shows "(mentions d p \<longleftrightarrow> sublist (py_lower (drug_name d)) (py_lower (pub_title p)))
     \<and> (mentions d p \<longrightarrow> has_edge (build_graph_with js drugs pm ct) (drug_key d) (pub_key p))
     \<and> ((\<forall>q \<in> set (pm @ ct). pub_key q = pub_key p \<longrightarrow>
              py_lower (pub_title q) = py_lower (pub_title p))
          \<and> (\<forall>q \<in> set (pm @ ct). mentions d q \<longrightarrow>
              journal_key (pub_journal_name q) \<noteq> pub_key p) \<longrightarrow>
         (has_edge (build_graph_with js drugs pm ct) (drug_key d) (pub_key p) \<longleftrightarrow> mentions d p))"
  using build_pub_edge_if[OF assms, of js] build_pub_edge_only_if[of js drugs pm ct d p]
  by (auto simp: mentions_def py_in_sublist)

theorem drug_publication_edge_iff_mention_witness:
  "mentions \<lparr>drug_atccode = ''N06BA01'', drug_name = ''amphetamine''\<rparr>
      \<lparr>pub_id = ''7'', pub_title = ''Dextroamphetamine is effective'', pub_date = ''2020-03-01'',
       pub_journal_name = ''Sleep'', pub_source_type = PUBMED\<rparr>
   \<and> has_edge amphetamine_graph ''amphetamine'' ''dextroamphetamine is''"
proof -
  let ?d = "\<lparr>drug_atccode = ''N06BA01'', drug_name = ''amphetamine''\<rparr>"
  let ?p = "\<lparr>pub_id = ''7'', pub_title = ''Dextroamphetamine is effective'', pub_date = ''2020-03-01'',
       pub_journal_name = ''Sleep'', pub_source_type = PUBMED\<rparr>"
  let ?js = "extract_journals (amphetamine_pubmed @ [])"
  have d: "?d \<in> set amphetamine_drugs" and p: "?p \<in> set (amphetamine_pubmed @ [])"
    by code_simp+
  have m: "mentions ?d ?p"
    by code_simp
  have t: "list_all (\<lambda>q. pub_key q = pub_key ?p \<longrightarrow> py_lower (pub_title q) = py_lower (pub_title ?p))
             (amphetamine_pubmed @ [])"
    and j: "list_all (\<lambda>q. mentions ?d q \<longrightarrow> journal_key (pub_journal_name q) \<noteq> pub_key ?p)
             (amphetamine_pubmed @ [])"
    by code_simp+
  have k: "drug_key ?d = ''amphetamine''" "pub_key ?p = ''dextroamphetamine is''"
    by code_simp+
  have "has_edge amphetamine_graph (drug_key ?d) (pub_key ?p) \<longleftrightarrow> mentions ?d ?p"
    unfolding amphetamine_graph_def build_graph_def
    using drug_publication_edge_iff_mention[OF d p, of ?js] t j
    unfolding list_all_iff by blast
  with m show ?thesis
    unfolding k by simp
qed

text \<open>
  C4, as the claim states it, fails in the "only if" direction: the second publication
  does not mention the drug, but it shares its truncated node key with the first one,
  so the graph has an edge from the drug's node to its node.
\<close>

theorem shared_key_edge_without_mention:
  "hd (tl shared_key_pubmed) \<in> set (shared_key_pubmed @ [])
   \<and> hd shared_key_drugs \<in> set shared_key_drugs
   \<and> \<not> mentions (hd shared_key_drugs) (hd (tl shared_key_pubmed))
   \<and> has_edge shared_key_graph (drug_key (hd shared_key_drugs)) (pub_key (hd (tl shared_key_pubmed)))"
  by code_simp

section \<open>Edges from drugs to journals\<close>













section \<open>Export followed by import\<close>

subsection \<open>Strings, fresh keys and edge attributes\<close>














subsection \<open>The edges in export order\<close>




subsection \<open>The nodes the import rebuilds\<close>












subsection \<open>Importing the exported records\<close>









subsection \<open>The searches of the import\<close>




subsection \<open>Importing the exported relationships\<close>













subsection \<open>The nodes of the built graph\<close>





subsection \<open>The round trip\<close>




end
